theory Spec2Isabelle
  imports Main
begin

section \<open>Block Pipe Copier (dbms/src/DataStreams/copyData.cpp)\<close>

text \<open>
  A block carries the two frame markers the copier reads through \<open>block.info\<close>; the
  columns are opaque here and stand as a row count. The input stream is the sequence of
  non-empty blocks that \<open>from.read()\<close> yields before the first empty one, together with
  the profiling information the stream exposes when it is an
  \<open>IProfilingBlockInputStream\<close>.
\<close>

record block_info =
  is_start_frame :: bool
  is_end_frame :: bool

record block =
  info :: block_info
  rows :: nat

record profile_info =
  rows_before_limit :: "nat option"
  totals :: block
  extremes :: block

record input_stream =
  blocks :: "block list"
  profiling :: "profile_info option"

text \<open>
  Every call the copier makes on the two streams, in the order it makes them. The first
  two are calls on the source, the others on the destination sink.
\<close>

datatype call =
    ReadPrefix
  | ReadSuffix
  | SetSampleBlock block
  | WritePrefix
  | Write block
  | WriteSuffix
  | SetRowsBeforeLimit nat
  | SetTotals block
  | SetExtremes block

text \<open>
  The cancel flag is a pointer to an atomic owned by the caller: \<open>None\<close> is the null
  pointer, \<open>Some f\<close> a flag whose \<open>k\<close>-th load (counted from 0) returns \<open>f k\<close>.
  \<open>isAtomicSet\<close> short-circuits on the null pointer.
\<close>

type_synonym cancel_flag = "(nat \<Rightarrow> bool) option"

definition isAtomicSet :: "cancel_flag \<Rightarrow> nat \<Rightarrow> bool" where
  "isAtomicSet val k = (case val of None \<Rightarrow> False | Some f \<Rightarrow> f k)"

record copy_state =
  calls :: "call list"
  open_frame :: bool
  no_data :: bool

definition emit :: "call list \<Rightarrow> copy_state \<Rightarrow> copy_state" where
  "emit cs s = s\<lparr>calls := calls s @ cs\<rparr>"

text \<open>
  The body of the \<open>while\<close> loop for one block that passed the cancellation check.
\<close>

definition copy_block :: "block \<Rightarrow> copy_state \<Rightarrow> copy_state" where
  "copy_block b s =
     (let s1 = (if \<not> open_frame s \<or> is_start_frame (info b)
                then (emit [SetSampleBlock b, WritePrefix] s)\<lparr>open_frame := True\<rparr>
                else s);
          s2 = emit [Write b] s1
      in if is_end_frame (info b)
         then (emit [WriteSuffix] s2)\<lparr>open_frame := False\<rparr>
         else s2)"

text \<open>
  The loop. The second component counts the loads of the cancel flag made so far; a
  \<open>break\<close> leaves the loop with the remaining blocks unread.
\<close>

fun copy_loop :: "cancel_flag \<Rightarrow> block list \<Rightarrow> copy_state \<times> nat \<Rightarrow> copy_state \<times> nat" where
  "copy_loop c [] (s, k) = (s, k)"
| "copy_loop c (b # bs) (s, k) =
     (let s1 = s\<lparr>no_data := False\<rparr>
      in if isAtomicSet c k then (s1, Suc k)
         else copy_loop c bs (copy_block b s1, Suc k))"

definition forward_profile :: "profile_info option \<Rightarrow> copy_state \<Rightarrow> copy_state" where
  "forward_profile p s =
     (case p of
        None \<Rightarrow> s
      | Some pi \<Rightarrow>
          emit [SetTotals (totals pi), SetExtremes (extremes pi)]
            (case rows_before_limit pi of
               None \<Rightarrow> s
             | Some n \<Rightarrow> emit [SetRowsBeforeLimit n] s))"

definition copyData :: "input_stream \<Rightarrow> cancel_flag \<Rightarrow> copy_state" where
  "copyData from is_cancelled =
     (let s0 = \<lparr>calls = [ReadPrefix], open_frame = False, no_data = True\<rparr>;
          (s1, k) = copy_loop is_cancelled (blocks from) (s0, 0);
          s2 = (if no_data s1 then (emit [WritePrefix] s1)\<lparr>open_frame := True\<rparr> else s1)
      in if isAtomicSet is_cancelled k then s2
         else
           let s3 = forward_profile (profiling from) s2
           in if isAtomicSet is_cancelled (Suc k) then s3
              else
                let s4 = emit [ReadSuffix] s3
                in if open_frame s4 then emit [WriteSuffix] s4 else s4)"

text \<open>
  What the sink sees of the frame structure: a prefix opens a frame, a write inside an
  open frame counts, a suffix closes a frame that has at least one write. Anything else
  is ill-formed. The other calls do not touch the frame structure.
\<close>

datatype frame_state = Closed | Opened nat | Ill_formed

fun frame_step :: "frame_state \<Rightarrow> call \<Rightarrow> frame_state" where
  "frame_step Closed WritePrefix = Opened 0"
| "frame_step (Opened n) WritePrefix = Ill_formed"
| "frame_step (Opened n) (Write b) = Opened (Suc n)"
| "frame_step Closed (Write b) = Ill_formed"
| "frame_step (Opened (Suc n)) WriteSuffix = Closed"
| "frame_step (Opened 0) WriteSuffix = Ill_formed"
| "frame_step Closed WriteSuffix = Ill_formed"
| "frame_step Ill_formed c = Ill_formed"
| "frame_step st c = st"

definition frames_ok :: "call list \<Rightarrow> bool" where
  "frames_ok cs = (foldl frame_step Closed cs = Closed)"

definition is_frame_call :: "call \<Rightarrow> bool" where
  "is_frame_call c = (case c of WritePrefix \<Rightarrow> True | Write b \<Rightarrow> True | WriteSuffix \<Rightarrow> True | _ \<Rightarrow> False)"

text \<open>
  An input is well framed when no block carries \<open>is_start_frame\<close> while the frame
  opened by an earlier block is still open.
\<close>

fun well_framed :: "bool \<Rightarrow> block list \<Rightarrow> bool" where
  "well_framed opn [] = True"
| "well_framed opn (b # bs) =
     (\<not> (opn \<and> is_start_frame (info b)) \<and> well_framed (\<not> is_end_frame (info b)) bs)"

definition never_set :: "cancel_flag \<Rightarrow> bool" where
  "never_set c = (\<forall>k. \<not> isAtomicSet c k)"

text \<open>
  The loop when no cancellation is ever observed: every block is copied.
\<close>

definition copy_all :: "block list \<Rightarrow> copy_state \<Rightarrow> copy_state" where
  "copy_all bs s = foldl (\<lambda>s b. copy_block b (s\<lparr>no_data := False\<rparr>)) s bs"

text \<open>
  The copier's \<open>open_frame\<close> variable agrees with the frame state of the sink when the
  sink is in an open frame with at least one write exactly when the variable is set.
\<close>

definition agree :: "bool \<Rightarrow> frame_state \<Rightarrow> bool" where
  "agree opn st = (if opn then (\<exists>n. st = Opened (Suc n)) else st = Closed)"

subsection \<open>The copier without cancellation\<close>


lemma copy_all_Nil: "copy_all [] s = s"
  by (simp add: copy_all_def)

lemma copy_all_Cons: "copy_all (b # bs) s = copy_all bs (copy_block b (s\<lparr>no_data := False\<rparr>))"
  by (simp add: copy_all_def)

lemma copy_loop_never_set:
  "never_set c \<Longrightarrow> copy_loop c bs (s, k) = (copy_all bs s, k + length bs)"
proof (induction bs arbitrary: s k)
  case Nil
  show ?case by (simp add: copy_all_Nil)
next
  case (Cons b bs)
  from Cons.prems have "\<not> isAtomicSet c k" by (simp add: never_set_def)
  with Cons show ?case by (simp add: copy_all_Cons)
qed

lemma never_set_None: "never_set None"
  by (simp add: never_set_def isAtomicSet_def)

lemma copyData_never_set_eq:
  assumes "never_set c"
  shows "copyData src c = copyData src None"
proof -
  have a: "\<And>k. \<not> isAtomicSet c k" using assms by (simp add: never_set_def)
  have b: "\<And>k. \<not> isAtomicSet None k" by (simp add: isAtomicSet_def)
  show ?thesis
    by (simp add: copyData_def copy_loop_never_set [OF assms] copy_loop_never_set [OF never_set_None] a b Let_def)
qed


lemma frame_step_other:
  "\<not> is_frame_call c \<Longrightarrow> frame_step st c = st"
  by (cases st; cases c) (simp_all add: is_frame_call_def)

lemma calls_emit: "calls (emit cs s) = calls s @ cs"
  by (simp add: emit_def)

lemma open_frame_emit: "open_frame (emit cs s) = open_frame s"
  by (simp add: emit_def)

lemma no_data_emit: "no_data (emit cs s) = no_data s"
  by (simp add: emit_def)

lemma copy_block_agree:
  assumes "\<not> (open_frame s \<and> is_start_frame (info b))"
    and "agree (open_frame s) (foldl frame_step Closed (calls s))"
  shows "agree (open_frame (copy_block b s)) (foldl frame_step Closed (calls (copy_block b s)))"
    and "open_frame (copy_block b s) = (\<not> is_end_frame (info b))"
  using assms
  by (auto simp add: copy_block_def agree_def Let_def calls_emit open_frame_emit is_frame_call_def split: if_splits)

lemma copy_block_no_data: "no_data (copy_block b s) = no_data s"
  by (simp add: copy_block_def Let_def no_data_emit)

lemma copy_all_agree:
  "well_framed (open_frame s) bs \<Longrightarrow> agree (open_frame s) (foldl frame_step Closed (calls s))
   \<Longrightarrow> agree (open_frame (copy_all bs s)) (foldl frame_step Closed (calls (copy_all bs s)))"
proof (induction bs arbitrary: s)
  case Nil
  then show ?case by (simp add: copy_all_Nil)
next
  case (Cons b bs)
  let ?s = "s\<lparr>no_data := False\<rparr>"
  have 1: "\<not> (open_frame ?s \<and> is_start_frame (info b))" using Cons.prems(1) by simp
  have 2: "agree (open_frame ?s) (foldl frame_step Closed (calls ?s))" using Cons.prems(2) by simp
  have 3: "well_framed (open_frame (copy_block b ?s)) bs"
    using Cons.prems(1) copy_block_agree(2) [OF 1 2] by simp
  show ?case
    using Cons.IH [OF 3 copy_block_agree(1) [OF 1 2]] by (simp add: copy_all_Cons)
qed

lemma copy_all_no_data: "bs \<noteq> [] \<Longrightarrow> \<not> no_data (copy_all bs s)"
proof (induction bs arbitrary: s)
  case Nil
  then show ?case by simp
next
  case (Cons b bs)
  show ?case
  proof (cases bs)
    case Nil
    then show ?thesis by (simp add: copy_all_Cons copy_all_Nil copy_block_no_data)
  next
    case (Cons b' bs')
    then show ?thesis using Cons.IH [of "copy_block b (s\<lparr>no_data := False\<rparr>)"]
      by (simp add: copy_all_Cons)
  qed
qed

lemma foldl_frame_step_profile:
  "foldl frame_step Closed (calls (forward_profile p s)) = foldl frame_step Closed (calls s)"
  by (simp add: forward_profile_def calls_emit frame_step_other is_frame_call_def split: option.split)

lemma open_frame_forward_profile: "open_frame (forward_profile p s) = open_frame s"
  by (simp add: forward_profile_def open_frame_emit split: option.split)

lemma count_frame_machine:
  "foldl frame_step st cs = Closed \<Longrightarrow>
   count_list cs WritePrefix + (case st of Opened n \<Rightarrow> 1 | _ \<Rightarrow> 0) = count_list cs WriteSuffix"
proof (induction cs arbitrary: st)
  case Nil
  then show ?case by simp
next
  case (Cons c cs)
  have bad: "\<And>xs. foldl frame_step Ill_formed xs = Ill_formed"
    subgoal for xs by (induction xs) simp_all
    done
  show ?case
  proof (cases "frame_step st c = Ill_formed")
    case True
    with Cons.prems bad show ?thesis by simp
  next
    case False
    from Cons.prems have "foldl frame_step (frame_step st c) cs = Closed" by simp
    from Cons.IH [OF this] False show ?thesis
      by (cases "(st, c)" rule: frame_step.cases) auto
  qed
qed

subsection \<open>Frame structure seen by the sink\<close>

lemma count_prefix_forward_profile:
  "count_list (calls (forward_profile p s)) WritePrefix = count_list (calls s) WritePrefix"
  "count_list (calls (forward_profile p s)) WriteSuffix = count_list (calls s) WriteSuffix"
  by (simp_all add: forward_profile_def calls_emit split: option.split)

lemma filter_frame_forward_profile:
  "filter is_frame_call (calls (forward_profile p s)) = filter is_frame_call (calls s)"
  by (simp add: forward_profile_def calls_emit is_frame_call_def split: option.split)

lemma copyData_no_flag:
  "copyData src None =
     (let s1 = copy_all (blocks src) \<lparr>calls = [ReadPrefix], open_frame = False, no_data = True\<rparr>;
          s2 = (if no_data s1 then (emit [WritePrefix] s1)\<lparr>open_frame := True\<rparr> else s1);
          s4 = emit [ReadSuffix] (forward_profile (profiling src) s2)
      in if open_frame s4 then emit [WriteSuffix] s4 else s4)"
  by (simp add: copyData_def copy_loop_never_set [OF never_set_None] isAtomicSet_def Let_def)

lemma copyData_empty:
  assumes "blocks src = []"
  shows "filter is_frame_call (calls (copyData src None)) = [WritePrefix, WriteSuffix]"
    and "count_list (calls (copyData src None)) WritePrefix = count_list (calls (copyData src None)) WriteSuffix"
  using assms
  by (simp_all add: copyData_no_flag copy_all_Nil Let_def calls_emit open_frame_emit
      open_frame_forward_profile filter_frame_forward_profile count_prefix_forward_profile
      is_frame_call_def)

lemma copyData_nonempty:
  assumes "blocks src \<noteq> []" and "well_framed False (blocks src)"
  shows "frames_ok (calls (copyData src None))"
proof -
  let ?s0 = "\<lparr>calls = [ReadPrefix], open_frame = False, no_data = True\<rparr>"
  let ?s1 = "copy_all (blocks src) ?s0"
  have nd: "\<not> no_data ?s1" using assms(1) by (rule copy_all_no_data)
  have "agree (open_frame ?s0) (foldl frame_step Closed (calls ?s0))"
    by (simp add: agree_def)
  moreover have "well_framed (open_frame ?s0) (blocks src)" using assms(2) by simp
  ultimately have ag: "agree (open_frame ?s1) (foldl frame_step Closed (calls ?s1))"
    by (rule copy_all_agree [rotated])
  show ?thesis
  proof (cases "open_frame ?s1")
    case True
    with ag obtain n where "foldl frame_step Closed (calls ?s1) = Opened (Suc n)"
      by (auto simp add: agree_def)
    with True nd show ?thesis
      by (simp add: frames_ok_def copyData_no_flag Let_def calls_emit open_frame_emit
          open_frame_forward_profile foldl_frame_step_profile)
  next
    case False
    with ag have "foldl frame_step Closed (calls ?s1) = Closed"
      by (simp add: agree_def)
    with False nd show ?thesis
      by (simp add: frames_ok_def copyData_no_flag Let_def calls_emit open_frame_emit
          open_frame_forward_profile foldl_frame_step_profile)
  qed
qed

text \<open>
  Claim C1, as the code has it. When no cancellation is observed and no block carries
  \<open>is_start_frame\<close> while a frame is open, the sink receives \<open>writePrefix\<close> and
  \<open>writeSuffix\<close> equally often; for a non-empty input every suffix closes a frame
  that a prefix opened and that holds at least one write, and no frame stays open; for an
  empty input the frame calls are exactly one prefix followed by one suffix.
\<close>

theorem copyData_frames_well_formed:
  assumes "never_set c" and "well_framed False (blocks src)"
  shows "count_list (calls (copyData src c)) WritePrefix = count_list (calls (copyData src c)) WriteSuffix
    \<and> (blocks src \<noteq> [] \<longrightarrow> frames_ok (calls (copyData src c)))
    \<and> (blocks src = [] \<longrightarrow> filter is_frame_call (calls (copyData src c)) = [WritePrefix, WriteSuffix])"
proof -
  have eq: "copyData src c = copyData src None"
    using assms(1) by (rule copyData_never_set_eq)
  have "count_list (calls (copyData src None)) WritePrefix = count_list (calls (copyData src None)) WriteSuffix"
  proof (cases "blocks src = []")
    case True
    then show ?thesis by (rule copyData_empty(2))
  next
    case False
    then have "frames_ok (calls (copyData src None))"
      using assms(2) by (rule copyData_nonempty)
    then have "foldl frame_step Closed (calls (copyData src None)) = Closed"
      by (simp add: frames_ok_def)
    from count_frame_machine [OF this] show ?thesis by simp
  qed
  with eq show ?thesis
    using copyData_empty(1) [of src] copyData_nonempty [OF _ assms(2)] by simp
qed



text \<open>
  The two-block single frame: a start block followed by an end block.
\<close>

theorem copyData_frames_well_formed_witness:
  "never_set (Some (\<lambda>k. False))
   \<and> well_framed False (blocks \<lparr>blocks = [\<lparr>info = \<lparr>is_start_frame = True, is_end_frame = False\<rparr>, rows = 2\<rparr>,
        \<lparr>info = \<lparr>is_start_frame = False, is_end_frame = True\<rparr>, rows = 3\<rparr>], profiling = None\<rparr>)
   \<and> frames_ok (calls (copyData \<lparr>blocks = [\<lparr>info = \<lparr>is_start_frame = True, is_end_frame = False\<rparr>, rows = 2\<rparr>,
        \<lparr>info = \<lparr>is_start_frame = False, is_end_frame = True\<rparr>, rows = 3\<rparr>], profiling = None\<rparr> (Some (\<lambda>k. False))))"
  using copyData_frames_well_formed [of "Some (\<lambda>k. False)"
      "\<lparr>blocks = [\<lparr>info = \<lparr>is_start_frame = True, is_end_frame = False\<rparr>, rows = 2\<rparr>,
        \<lparr>info = \<lparr>is_start_frame = False, is_end_frame = True\<rparr>, rows = 3\<rparr>], profiling = None\<rparr>"]
  by (simp add: never_set_def isAtomicSet_def)

text \<open>
  Claim C1 as stated, for every input: a start block that arrives while the frame of an
  earlier start block is still open gets a second \<open>writePrefix\<close>, since the copier
  tests \<open>!open_frame || block.info.is_start_frame\<close>. The sink then sees two prefixes
  and one suffix.
\<close>

theorem copyData_frames_counterexample:
  "calls (copyData \<lparr>blocks = [\<lparr>info = \<lparr>is_start_frame = True, is_end_frame = False\<rparr>, rows = 1\<rparr>,
        \<lparr>info = \<lparr>is_start_frame = True, is_end_frame = True\<rparr>, rows = 1\<rparr>], profiling = None\<rparr> None)
   = [ReadPrefix,
      SetSampleBlock \<lparr>info = \<lparr>is_start_frame = True, is_end_frame = False\<rparr>, rows = 1\<rparr>, WritePrefix,
      Write \<lparr>info = \<lparr>is_start_frame = True, is_end_frame = False\<rparr>, rows = 1\<rparr>,
      SetSampleBlock \<lparr>info = \<lparr>is_start_frame = True, is_end_frame = True\<rparr>, rows = 1\<rparr>, WritePrefix,
      Write \<lparr>info = \<lparr>is_start_frame = True, is_end_frame = True\<rparr>, rows = 1\<rparr>, WriteSuffix,
      ReadSuffix]
   \<and> count_list (calls (copyData \<lparr>blocks = [\<lparr>info = \<lparr>is_start_frame = True, is_end_frame = False\<rparr>, rows = 1\<rparr>,
        \<lparr>info = \<lparr>is_start_frame = True, is_end_frame = True\<rparr>, rows = 1\<rparr>], profiling = None\<rparr> None)) WritePrefix = 2
   \<and> count_list (calls (copyData \<lparr>blocks = [\<lparr>info = \<lparr>is_start_frame = True, is_end_frame = False\<rparr>, rows = 1\<rparr>,
        \<lparr>info = \<lparr>is_start_frame = True, is_end_frame = True\<rparr>, rows = 1\<rparr>], profiling = None\<rparr> None)) WriteSuffix = 1"
  by (simp add: copyData_def isAtomicSet_def copy_block_def emit_def forward_profile_def Let_def)

text \<open>
  Claim C9. Copying with a cancel flag whose every load returns false gives the same
  calls on both streams, in the same order, and the same final \<open>open_frame\<close> and
  \<open>no_data\<close> as copying with the null pointer.
\<close>

theorem copyData_never_set_flag:
  "(\<forall>k. \<not> f k) \<Longrightarrow> copyData src (Some f) = copyData src None"
  by (rule copyData_never_set_eq) (simp add: never_set_def isAtomicSet_def)

theorem copyData_never_set_flag_witness:
  "(\<forall>k. \<not> (\<lambda>k::nat. False) k)
   \<and> copyData \<lparr>blocks = [\<lparr>info = \<lparr>is_start_frame = True, is_end_frame = True\<rparr>, rows = 1\<rparr>], profiling = None\<rparr> (Some (\<lambda>k. False))
     = copyData \<lparr>blocks = [\<lparr>info = \<lparr>is_start_frame = True, is_end_frame = True\<rparr>, rows = 1\<rparr>], profiling = None\<rparr> None"
  using copyData_never_set_flag [of "\<lambda>k. False"
      "\<lparr>blocks = [\<lparr>info = \<lparr>is_start_frame = True, is_end_frame = True\<rparr>, rows = 1\<rparr>], profiling = None\<rparr>"]
  by simp

section \<open>Dataflow Fan-out Writer (dbms/src/DataStreams/PushingToViewsBlockOutputStream.h)\<close>

text \<open>
  The writer holds shared pointers to sinks: \<open>output\<close> (here \<open>output_ptr\<close>), null when the writer was built
  with \<open>no_destination\<close>, and one sink per dependent view in \<open>views\<close>. Sinks live in a
  store that maps a sink's address to the boundary calls it has received so far, so that
  a call through one pointer is seen through every alias of it.
\<close>

datatype boundary_call = Flush | Prefix | Suffix

type_synonym sink_ref = nat

type_synonym sink_store = "sink_ref \<Rightarrow> boundary_call list"

record pushing_to_views =
  output_ptr :: "sink_ref option"
  views :: "(string \<times> sink_ref) list"

definition deliver :: "boundary_call \<Rightarrow> sink_ref \<Rightarrow> sink_store \<Rightarrow> sink_store" where
  "deliver c p st = st(p := st p @ [c])"

definition flush :: "pushing_to_views \<Rightarrow> sink_store \<Rightarrow> sink_store" where
  "flush w st = (case output_ptr w of None \<Rightarrow> st | Some out \<Rightarrow> deliver Flush out st)"

definition writePrefix :: "pushing_to_views \<Rightarrow> sink_store \<Rightarrow> sink_store" where
  "writePrefix w st = (case output_ptr w of None \<Rightarrow> st | Some out \<Rightarrow> deliver Prefix out st)"

definition writeSuffix :: "pushing_to_views \<Rightarrow> sink_store \<Rightarrow> sink_store" where
  "writeSuffix w st = (case output_ptr w of None \<Rightarrow> st | Some out \<Rightarrow> deliver Suffix out st)"

text \<open>
  Claim C2, as the code has it. Each of \<open>writePrefix\<close>, \<open>writeSuffix\<close> and \<open>flush\<close>
  reaches the primary sink when the writer holds one, and leaves every other sink as it
  was: no view's sub-writer that is a sink of its own receives the call.
\<close>

theorem boundary_calls_reach_primary_only:
  "(\<forall>out. output_ptr w = Some out \<longrightarrow>
      writePrefix w st out = st out @ [Prefix]
    \<and> writeSuffix w st out = st out @ [Suffix]
    \<and> flush w st out = st out @ [Flush])
   \<and> (\<forall>v \<in> set (views w). output_ptr w \<noteq> Some (snd v) \<longrightarrow>
      writePrefix w st (snd v) = st (snd v)
    \<and> writeSuffix w st (snd v) = st (snd v)
    \<and> flush w st (snd v) = st (snd v))
   \<and> (output_ptr w = None \<longrightarrow> writePrefix w st = st \<and> writeSuffix w st = st \<and> flush w st = st)"
  by (auto simp add: writePrefix_def writeSuffix_def flush_def deliver_def split: option.splits)

theorem boundary_calls_reach_primary_only_witness:
  "writePrefix \<lparr>output_ptr = Some 0, views = [(''v'', 1)]\<rparr> (\<lambda>p. []) 0 = [Prefix]
   \<and> writeSuffix \<lparr>output_ptr = Some 0, views = [(''v'', 1)]\<rparr> (\<lambda>p. []) 0 = [Suffix]
   \<and> flush \<lparr>output_ptr = Some 0, views = [(''v'', 1)]\<rparr> (\<lambda>p. []) 0 = [Flush]
   \<and> writePrefix \<lparr>output_ptr = Some 0, views = [(''v'', 1)]\<rparr> (\<lambda>p. []) 1 = []
   \<and> writePrefix \<lparr>output_ptr = None, views = [(''v'', 1)]\<rparr> (\<lambda>p. []) = (\<lambda>p. [])"
  using boundary_calls_reach_primary_only [of "\<lparr>output_ptr = Some 0, views = [(''v'', 1)]\<rparr>" "\<lambda>p. []"]
    boundary_calls_reach_primary_only [of "\<lparr>output_ptr = None, views = [(''v'', 1)]\<rparr>" "\<lambda>p. []"]
  by simp

text \<open>
  Claim C2 as stated: a writer over a primary sink at address 0 and one view whose
  sub-writer is the sink at address 1. After \<open>writePrefix\<close>, \<open>writeSuffix\<close> and
  \<open>flush\<close> the primary sink has received the three calls and the view's sub-writer none.
\<close>

theorem boundary_calls_broadcast_counterexample:
  "flush \<lparr>output_ptr = Some 0, views = [(''v'', 1)]\<rparr>
     (writeSuffix \<lparr>output_ptr = Some 0, views = [(''v'', 1)]\<rparr>
       (writePrefix \<lparr>output_ptr = Some 0, views = [(''v'', 1)]\<rparr> (\<lambda>p. []))) 0 = [Prefix, Suffix, Flush]
   \<and> flush \<lparr>output_ptr = Some 0, views = [(''v'', 1)]\<rparr>
     (writeSuffix \<lparr>output_ptr = Some 0, views = [(''v'', 1)]\<rparr>
       (writePrefix \<lparr>output_ptr = Some 0, views = [(''v'', 1)]\<rparr> (\<lambda>p. []))) 1 = []"
  by (simp add: writePrefix_def writeSuffix_def flush_def deliver_def)

section \<open>Aggregating In-Memory Table (src/Storages/StorageAggregatingMemory.cpp)\<close>

text \<open>
  The aggregator, the expression actions and the shape check are collaborators of the
  storage; they are parameters here. \<open>'b\<close> is the type of blocks, \<open>'v\<close> the aggregation
  state held in \<open>many_data->variants[0]\<close>, \<open>'c\<close> the pipe that a read returns.
\<close>

record ('b, 'v, 'c) aggregating_params =
  check_block :: "'b \<Rightarrow> bool"
  before_aggregation :: "'b \<Rightarrow> 'b"
  executeOnBlock :: "'b \<Rightarrow> 'v \<Rightarrow> 'v"
  prepareVariantsToMerge :: "'v \<Rightarrow> 'c"
  before_window :: "('c \<Rightarrow> 'c) option"
  before_order_by :: "('c \<Rightarrow> 'c) option"
  final_projection :: "('c \<Rightarrow> 'c) option"

record 'v storage_aggregating_memory =
  many_data :: 'v

datatype storage_error = BLOCK_STRUCTURE_MISMATCH

text \<open>\<open>AggregatingOutputStream::write\<close>: the shape check throws on a block that does not fit.\<close>

definition aggregating_write ::
  "('b, 'v, 'c) aggregating_params \<Rightarrow> 'b \<Rightarrow> 'v storage_aggregating_memory
    \<Rightarrow> storage_error + 'v storage_aggregating_memory" where
  "aggregating_write prm blk s =
     (if \<not> check_block prm blk then Inl BLOCK_STRUCTURE_MISMATCH
      else Inr (s\<lparr>many_data := executeOnBlock prm (before_aggregation prm blk) (many_data s)\<rparr>))"

definition executeExpression :: "('c \<Rightarrow> 'c) option \<Rightarrow> 'c \<Rightarrow> 'c" where
  "executeExpression expression pipe = (case expression of None \<Rightarrow> pipe | Some f \<Rightarrow> f pipe)"

definition aggregating_read :: "('b, 'v, 'c) aggregating_params \<Rightarrow> 'v storage_aggregating_memory \<Rightarrow> 'c" where
  "aggregating_read prm s =
     executeExpression (final_projection prm)
       (executeExpression (before_order_by prm)
         (executeExpression (before_window prm)
           (prepareVariantsToMerge prm (many_data s))))"

text \<open>Both bodies are empty in the source but for a comment.\<close>

definition aggregating_drop :: "'v storage_aggregating_memory \<Rightarrow> 'v storage_aggregating_memory" where
  "aggregating_drop s = s"

definition aggregating_truncate :: "'v storage_aggregating_memory \<Rightarrow> 'v storage_aggregating_memory" where
  "aggregating_truncate s = s"

text \<open>
  A table that counts rows: a block is the number of its rows, the state is the running
  total, a read returns the total.
\<close>

definition count_params :: "(nat, nat, nat) aggregating_params" where
  "count_params =
     \<lparr>check_block = (\<lambda>b. True), before_aggregation = (\<lambda>b. b),
      executeOnBlock = (\<lambda>b v. v + b), prepareVariantsToMerge = (\<lambda>v. v),
      before_window = None, before_order_by = None, final_projection = None\<rparr>"

text \<open>
  Claim C8 on the code: after a write of five rows into an empty counting table, a read
  after \<open>truncate\<close> and a read after \<open>drop\<close> still return 5, where the empty table
  returns 0. For every aggregator, both operations leave what a read returns unchanged.
\<close>

theorem truncate_and_drop_keep_state:
  "aggregating_read prm (aggregating_truncate s) = aggregating_read prm s
   \<and> aggregating_read prm (aggregating_drop s) = aggregating_read prm s
   \<and> aggregating_read count_params \<lparr>many_data = 0\<rparr> = 0
   \<and> aggregating_write count_params 5 \<lparr>many_data = 0\<rparr> = Inr \<lparr>many_data = 5\<rparr>
   \<and> aggregating_read count_params (aggregating_truncate \<lparr>many_data = 5\<rparr>) = 5
   \<and> aggregating_read count_params (aggregating_drop \<lparr>many_data = 5\<rparr>) = 5"
  by (simp add: aggregating_truncate_def aggregating_drop_def aggregating_read_def
      aggregating_write_def executeExpression_def count_params_def)

section \<open>External Loadable Registry (dbms/src/Interpreters/ExternalLoader.cpp)\<close>

text \<open>
  An exception is represented by its error code; message texts are not modelled.
  \<open>NotFoundException\<close> and \<open>SyntaxException\<close> are the exceptions of the configuration
  library, \<open>Foreign\<close> stands for any exception raised by a collaborator.
\<close>

datatype exn =
    BAD_ARGUMENTS
  | LOGICAL_ERROR
  | UNKNOWN_TYPE
  | TYPE_MISMATCH
  | EXTERNAL_LOADABLE_ALREADY_EXISTS
  | EXTERNAL_LOADABLE_IS_MISSING
  | NotFoundException
  | SyntaxException
  | Foreign nat

text \<open>
  The \<open>UInt64\<close> fields (lifetimes, backoff settings, the error count) are natural
  numbers below \<open>2 ^ 64\<close> and count seconds; where the source adds two of them the
  wrap-around is written out.

  A time point of the system clock is a signed 64-bit count of nanoseconds since the
  epoch, and \<open>std::chrono::seconds\<close> holds a signed 64-bit count of seconds. The
  source builds the seconds from a \<open>UInt64\<close>, which is a conversion modulo
  \<open>2 ^ 64\<close>, and adds them to a time point, which multiplies the count by
  \<open>10 ^ 9\<close> and adds, both in signed 64-bit arithmetic. Where the multiplication or
  the addition overflows, the model takes the two's-complement result that the machine
  computes.
\<close>

definition wrap_Int64 :: "int \<Rightarrow> int" where
  "wrap_Int64 x = (x + 2 ^ 63) mod 2 ^ 64 - 2 ^ 63"

definition seconds_from_UInt64 :: "nat \<Rightarrow> int" where
  "seconds_from_UInt64 n = wrap_Int64 (int n)"

definition plus_seconds :: "int \<Rightarrow> int \<Rightarrow> int" where
  "plus_seconds time_point secs = wrap_Int64 (time_point + wrap_Int64 (secs * 1000000000))"

record lifetime =
  min_sec :: nat
  max_sec :: nat

record external_loadable =
  getName :: string
  getLifetime :: lifetime
  supportUpdates :: bool
  isModified :: bool
  getCreationException :: "exn option"

datatype configuration_source_type = DDL | Filesystem

record loadable_info =
  loadable :: "external_loadable option"
  source_type :: configuration_source_type
  origin :: string
  exception :: "exn option"

record failed_loadable_info =
  failed_loadable :: external_loadable
  next_attempt_time :: int
  error_count :: nat

record loader_update_settings =
  check_period_sec :: nat
  backoff_initial_sec :: nat
  backoff_max_sec :: nat

text \<open>
  The registry. The maps are association lists with one entry per name, in the order the
  loops visit them. \<open>update_times\<close> is read with \<open>operator[]\<close>, which yields the epoch
  for a name that has no entry. \<open>draws\<close> counts the numbers drawn from \<open>rnd_engine\<close>.
\<close>

record external_loader =
  update_settings :: loader_update_settings
  loadable_objects_from_filesystem :: "(string \<times> loadable_info) list"
  loadable_objects_from_databases :: "(string \<times> loadable_info) list"
  failed_loadable_objects :: "(string \<times> failed_loadable_info) list"
  update_times :: "string \<Rightarrow> int"
  draws :: nat

text \<open>
  What the registry gets from outside during one reload cycle: the reading of the clock
  in nanoseconds, which is not before the epoch; what \<open>clone()\<close> of a loadable does
  (it throws or returns the new object); and the number that the \<open>k\<close>-th draw of a
  uniform distribution over \<open>[lo, hi]\<close> returns.
\<close>

record loader_env =
  now :: nat
  clone :: "external_loadable \<Rightarrow> exn + external_loadable"
  uniform :: "nat \<Rightarrow> nat \<Rightarrow> nat \<Rightarrow> nat"

definition assign :: "string \<Rightarrow> 'a \<Rightarrow> (string \<times> 'a) list \<Rightarrow> (string \<times> 'a) list" where
  "assign name v xs = map (\<lambda>(k, x). if k = name then (k, v) else (k, x)) xs"

definition erase :: "string \<Rightarrow> (string \<times> 'a) list \<Rightarrow> (string \<times> 'a) list" where
  "erase name xs = filter (\<lambda>(k, x). k \<noteq> name) xs"

subsection \<open>Accessors\<close>

definition getLoadableImpl :: "external_loader \<Rightarrow> string \<Rightarrow> bool \<Rightarrow> exn + external_loadable option" where
  "getLoadableImpl ldr name throw_on_error =
     (case map_of (loadable_objects_from_filesystem ldr) name of
        None \<Rightarrow> if throw_on_error then Inl BAD_ARGUMENTS else Inr None
      | Some it \<Rightarrow>
          if loadable it = None \<and> throw_on_error
          then (case exception it of Some e \<Rightarrow> Inl e | None \<Rightarrow> Inl LOGICAL_ERROR)
          else Inr (loadable it))"

definition getLoadableFromDatabasesImpl :: "external_loader \<Rightarrow> string \<Rightarrow> bool \<Rightarrow> exn + external_loadable option" where
  "getLoadableFromDatabasesImpl ldr name throw_on_error =
     (case map_of (loadable_objects_from_databases ldr) name of
        None \<Rightarrow> if throw_on_error then Inl BAD_ARGUMENTS else Inr None
      | Some it \<Rightarrow>
          if loadable it = None \<and> throw_on_error
          then (case exception it of Some e \<Rightarrow> Inl e | None \<Rightarrow> Inl LOGICAL_ERROR)
          else Inr (loadable it))"

text \<open>The two overloads of \<open>getLoadable\<close> and of \<open>tryGetLoadable\<close>.\<close>

definition getLoadable :: "external_loader \<Rightarrow> string \<Rightarrow> exn + external_loadable option" where
  "getLoadable ldr name = getLoadableImpl ldr name True"

definition getLoadable_db :: "external_loader \<Rightarrow> string \<Rightarrow> string \<Rightarrow> exn + external_loadable option" where
  "getLoadable_db ldr database_name name =
     (if database_name = [] \<or> name = [] then Inr None
      else getLoadableFromDatabasesImpl ldr (database_name @ ''.'' @ name) False)"

definition tryGetLoadable :: "external_loader \<Rightarrow> string \<Rightarrow> exn + external_loadable option" where
  "tryGetLoadable ldr name = getLoadableImpl ldr name False"

definition tryGetLoadable_db :: "external_loader \<Rightarrow> string \<Rightarrow> string \<Rightarrow> exn + external_loadable option" where
  "tryGetLoadable_db ldr database_name name =
     (if database_name = [] \<or> name = [] then Inr None
      else getLoadableFromDatabasesImpl ldr (database_name @ ''.'' @ name) False)"

subsection \<open>Update scheduling\<close>

text \<open>Returns the time point and the new number of draws.\<close>

definition getNextUpdateTime :: "loader_env \<Rightarrow> nat \<Rightarrow> external_loadable \<Rightarrow> int \<times> nat" where
  "getNextUpdateTime env d l =
     (let lt = getLifetime l
      in if max_sec lt < min_sec lt then (0, d)
         else (plus_seconds (int (now env))
                 (seconds_from_UInt64 (uniform env d (min_sec lt) (max_sec lt))),
               Suc d))"

definition checkLoadableObjectToUpdate :: "loader_env \<Rightarrow> (string \<Rightarrow> int) \<Rightarrow> loadable_info \<Rightarrow> bool" where
  "checkLoadableObjectToUpdate env utimes object =
     (case loadable object of
        None \<Rightarrow> False
      | Some current \<Rightarrow>
          if min_sec (getLifetime current) = 0 \<or> max_sec (getLifetime current) = 0 then False
          else if \<not> supportUpdates current then False
          else if int (now env) < utimes (getName current) then False
          else if \<not> isModified current then False
          else True)"

definition addObjectFromDatabase ::
  "loader_env \<Rightarrow> string \<Rightarrow> string \<Rightarrow> external_loadable \<Rightarrow> external_loader \<Rightarrow> exn + external_loader" where
  "addObjectFromDatabase env database_name object_name loadable_object ldr =
     (let name = database_name @ ''.'' @ object_name
      in if map_of (loadable_objects_from_databases ldr) name \<noteq> None
         then Inl EXTERNAL_LOADABLE_ALREADY_EXISTS
         else
           let info = \<lparr>loadable = Some loadable_object, source_type = DDL, origin = name, exception = None\<rparr>;
               (t, d) = getNextUpdateTime env (draws ldr) loadable_object
           in Inr (ldr\<lparr>loadable_objects_from_databases := loadable_objects_from_databases ldr @ [(name, info)],
                       update_times := (update_times ldr)(name := t),
                       draws := d\<rparr>))"

text \<open>
  \<open>updateObjects\<close> on one of the two maps. The first loop collects the objects to
  update, the second clones each of them and installs the result. \<open>cloned\<close> records the
  names on which \<open>clone()\<close> has been called.
\<close>

record update_state =
  objects :: "(string \<times> loadable_info) list"
  utimes :: "string \<Rightarrow> int"
  n_draws :: nat
  cloned :: "string list"

fun objects_to_update ::
  "loader_env \<Rightarrow> (string \<Rightarrow> int) \<Rightarrow> (string \<times> loadable_info) list \<Rightarrow> (string \<times> external_loadable) list" where
  "objects_to_update env tm [] = []"
| "objects_to_update env tm ((name, object) # rest) =
     (if checkLoadableObjectToUpdate env tm object
      then (case loadable object of None \<Rightarrow> [] | Some l \<Rightarrow> [(name, l)])
      else []) @ objects_to_update env tm rest"

fun update_loop ::
  "loader_env \<Rightarrow> bool \<Rightarrow> (string \<times> external_loadable) list \<Rightarrow> update_state \<Rightarrow> exn option \<times> update_state" where
  "update_loop env throw_on_error [] s = (None, s)"
| "update_loop env throw_on_error ((name, current) # rest) s =
     (let new_version = (case clone env current of Inl e \<Rightarrow> None | Inr nv \<Rightarrow> Some nv);
          exception = (case clone env current of Inl e \<Rightarrow> Some e | Inr nv \<Rightarrow> getCreationException nv);
          s1 = s\<lparr>cloned := cloned s @ [name]\<rparr>
      in case map_of (objects s1) name of
           None \<Rightarrow> update_loop env throw_on_error rest s1
         | Some it \<Rightarrow>
             let (t, d) = getNextUpdateTime env (n_draws s1) current;
                 s2 = s1\<lparr>utimes := (utimes s1)(name := t), n_draws := d\<rparr>
             in case exception of
                  None \<Rightarrow>
                    update_loop env throw_on_error rest
                      (s2\<lparr>objects := assign name (it\<lparr>exception := None, loadable := new_version\<rparr>) (objects s2)\<rparr>)
                | Some e \<Rightarrow>
                    let s3 = s2\<lparr>objects := assign name (it\<lparr>exception := Some e\<rparr>) (objects s2)\<rparr>
                    in if throw_on_error then (Some e, s3)
                       else update_loop env throw_on_error rest s3)"

definition updateObjects :: "loader_env \<Rightarrow> bool \<Rightarrow> update_state \<Rightarrow> exn option \<times> update_state" where
  "updateObjects env throw_on_error s =
     update_loop env throw_on_error (objects_to_update env (utimes s) (objects s)) s"

text \<open>
  \<open>updateAll\<close>: the file map, then the catalog map. An exception from the first leaves
  the second untouched. The result carries the names cloned in the two maps.
\<close>

definition updateAll :: "loader_env \<Rightarrow> bool \<Rightarrow> external_loader \<Rightarrow> exn option \<times> external_loader \<times> string list" where
  "updateAll env throw_on_error ldr =
     (let (r1, s1) = updateObjects env throw_on_error
            \<lparr>objects = loadable_objects_from_filesystem ldr, utimes = update_times ldr,
             n_draws = draws ldr, cloned = []\<rparr>;
          ldr1 = ldr\<lparr>loadable_objects_from_filesystem := objects s1, update_times := utimes s1, draws := n_draws s1\<rparr>
      in case r1 of
           Some e \<Rightarrow> (Some e, ldr1, cloned s1)
         | None \<Rightarrow>
             let (r2, s2) = updateObjects env throw_on_error
                   \<lparr>objects = loadable_objects_from_databases ldr1, utimes = update_times ldr1,
                    n_draws = draws ldr1, cloned = []\<rparr>
             in (r2,
                 ldr1\<lparr>loadable_objects_from_databases := objects s2, update_times := utimes s2, draws := n_draws s2\<rparr>,
                 cloned s1 @ cloned s2))"

subsection \<open>Retrying failed objects\<close>

definition UInt64_add :: "nat \<Rightarrow> nat \<Rightarrow> nat" where
  "UInt64_add a b = (a + b) mod 2 ^ 64"

text \<open>
  \<open>static_cast<UInt64>(std::exp2(error_count))\<close>: the power of two is exact in a
  double; the conversion to \<open>UInt64\<close> is defined only when the value fits.
\<close>

definition exp2_UInt64 :: "nat \<Rightarrow> nat option" where
  "exp2_UInt64 k = (if k < 64 then Some (2 ^ k) else None)"

datatype retry_outcome = Skipped | Failed exn | Recreated | Undefined_behaviour

text \<open>
  The body of the loop over \<open>failed_loadable_objects\<close> in \<open>reloadAndUpdate\<close>, up to the
  \<open>catch\<close>. An exception that \<open>clone()\<close> throws goes to the handler with the entry as it
  was. Installing the new version dereferences the result of \<open>find\<close> without a test.
\<close>

definition retry_failed_object ::
  "loader_env \<Rightarrow> string \<Rightarrow> failed_loadable_info \<Rightarrow> external_loader
     \<Rightarrow> retry_outcome \<times> failed_loadable_info \<times> external_loader" where
  "retry_failed_object env name object_info ldr =
     (if int (now env) < next_attempt_time object_info then (Skipped, object_info, ldr)
      else
        case clone env (failed_loadable object_info) of
          Inl e \<Rightarrow> (Failed e, object_info, ldr)
        | Inr loadable_ptr \<Rightarrow>
            (case getCreationException loadable_ptr of
               Some e \<Rightarrow>
                 (case exp2_UInt64 (error_count object_info) of
                    None \<Rightarrow> (Undefined_behaviour, object_info, ldr)
                  | Some hi \<Rightarrow>
                      let delay = min (backoff_max_sec (update_settings ldr))
                                    (UInt64_add (backoff_initial_sec (update_settings ldr))
                                       (uniform env (draws ldr) 0 hi))
                      in (Failed e,
                          object_info\<lparr>next_attempt_time :=
                                        plus_seconds (int (now env)) (seconds_from_UInt64 delay),
                                      error_count := (error_count object_info + 1) mod 2 ^ 64\<rparr>,
                          ldr\<lparr>draws := Suc (draws ldr)\<rparr>))
             | None \<Rightarrow>
                 let (t, d) = getNextUpdateTime env (draws ldr) loadable_ptr;
                     ldr1 = ldr\<lparr>update_times := (update_times ldr)(name := t), draws := d\<rparr>
                 in case map_of (loadable_objects_from_filesystem ldr1) name of
                      None \<Rightarrow> (Undefined_behaviour, object_info, ldr1)
                    | Some dict \<Rightarrow>
                        (Recreated, object_info,
                         ldr1\<lparr>loadable_objects_from_filesystem :=
                                 assign name (dict\<lparr>loadable := Some loadable_ptr, exception := None\<rparr>)
                                   (loadable_objects_from_filesystem ldr1)\<rparr>)))"

datatype status = Returned | Thrown exn | Undefined

text \<open>
  The loop: the entries already visited, the entries still to visit, the names
  recreated so far. With \<open>throw_on_error\<close> the first failure leaves the function.
\<close>

fun retry_loop ::
  "loader_env \<Rightarrow> bool \<Rightarrow> (string \<times> failed_loadable_info) list \<Rightarrow> (string \<times> failed_loadable_info) list
     \<Rightarrow> string list \<Rightarrow> external_loader
     \<Rightarrow> status \<times> (string \<times> failed_loadable_info) list \<times> string list \<times> external_loader" where
  "retry_loop env throw_on_error done [] recreated ldr = (Returned, done, recreated, ldr)"
| "retry_loop env throw_on_error done ((name, object_info) # rest) recreated ldr =
     (case retry_failed_object env name object_info ldr of
        (Skipped, info', ldr') \<Rightarrow>
          retry_loop env throw_on_error (done @ [(name, info')]) rest recreated ldr'
      | (Recreated, info', ldr') \<Rightarrow>
          retry_loop env throw_on_error (done @ [(name, info')]) rest (recreated @ [name]) ldr'
      | (Failed e, info', ldr') \<Rightarrow>
          if throw_on_error then (Thrown e, done @ (name, info') # rest, recreated, ldr')
          else retry_loop env throw_on_error (done @ [(name, info')]) rest recreated ldr'
      | (Undefined_behaviour, info', ldr') \<Rightarrow>
          (Undefined, done @ (name, info') # rest, recreated, ldr'))"

text \<open>
  The part of \<open>reloadAndUpdate\<close> between \<open>reloadFromConfigFiles\<close> and \<open>updateAll\<close>: the
  retry loop, then the removal of the recreated objects from the failure set.
\<close>

definition retry_failed_loadable_objects :: "loader_env \<Rightarrow> bool \<Rightarrow> external_loader \<Rightarrow> status \<times> external_loader" where
  "retry_failed_loadable_objects env throw_on_error ldr =
     (case retry_loop env throw_on_error [] (failed_loadable_objects ldr) [] ldr of
        (Returned, failed, recreated, ldr') \<Rightarrow>
          (Returned, ldr'\<lparr>failed_loadable_objects := fold erase recreated failed\<rparr>)
      | (st, failed, recreated, ldr') \<Rightarrow>
          (st, ldr'\<lparr>failed_loadable_objects := failed\<rparr>))"

subsection \<open>What the accessors return\<close>

text \<open>
  Example objects: a dictionary that supports updates, registries that hold it, and an
  environment whose clock reads \<open>t\<close> seconds after the epoch.
\<close>

definition example_dict :: "string \<Rightarrow> nat \<Rightarrow> nat \<Rightarrow> external_loadable" where
  "example_dict name lo hi =
     \<lparr>getName = name, getLifetime = \<lparr>min_sec = lo, max_sec = hi\<rparr>, supportUpdates = True,
      isModified = True, getCreationException = None\<rparr>"

definition example_loader :: "(string \<times> loadable_info) list \<Rightarrow> (string \<times> failed_loadable_info) list \<Rightarrow> nat \<Rightarrow> nat \<Rightarrow> external_loader" where
  "example_loader files failed initial maxi =
     \<lparr>update_settings = \<lparr>check_period_sec = 5, backoff_initial_sec = initial, backoff_max_sec = maxi\<rparr>,
      loadable_objects_from_filesystem = files,
      loadable_objects_from_databases = [],
      failed_loadable_objects = failed,
      update_times = (\<lambda>name. 0),
      draws = 0\<rparr>"

definition example_env :: "nat \<Rightarrow> (external_loadable \<Rightarrow> exn + external_loadable) \<Rightarrow> loader_env" where
  "example_env t c = \<lparr>now = t * 1000000000, clone = c, uniform = (\<lambda>k lo hi. lo)\<rparr>"

text \<open>
  Claim C4, as the code has it. \<open>get(name)\<close> throws when the name is unknown and when
  the entry holds no loadable, rethrowing the stored exception if there is one;
  \<open>tryGet(name)\<close> and \<open>tryGet(db, name)\<close> return the null pointer in these cases. An
  entry that holds a loadable is returned by all of them, whether or not it also holds a
  stored exception.
\<close>

theorem accessors_by_entry:
  "(map_of (loadable_objects_from_filesystem ldr) name = None \<longrightarrow>
      getLoadable ldr name = Inl BAD_ARGUMENTS \<and> tryGetLoadable ldr name = Inr None)
   \<and> (\<forall>it. map_of (loadable_objects_from_filesystem ldr) name = Some it \<and> loadable it = None \<longrightarrow>
        getLoadable ldr name = Inl (case exception it of Some e \<Rightarrow> e | None \<Rightarrow> LOGICAL_ERROR)
        \<and> tryGetLoadable ldr name = Inr None)
   \<and> (\<forall>it l. map_of (loadable_objects_from_filesystem ldr) name = Some it \<and> loadable it = Some l \<longrightarrow>
        getLoadable ldr name = Inr (Some l) \<and> tryGetLoadable ldr name = Inr (Some l))
   \<and> (map_of (loadable_objects_from_databases ldr) (db @ ''.'' @ name) = None \<longrightarrow>
        tryGetLoadable_db ldr db name = Inr None)
   \<and> (\<forall>it. map_of (loadable_objects_from_databases ldr) (db @ ''.'' @ name) = Some it \<longrightarrow>
        tryGetLoadable_db ldr db name = (if db = [] \<or> name = [] then Inr None else Inr (loadable it)))"
  by (auto simp add: getLoadable_def tryGetLoadable_def tryGetLoadable_db_def getLoadableImpl_def
      getLoadableFromDatabasesImpl_def split: option.splits)

theorem accessors_by_entry_witness:
  "getLoadable (example_loader [] [] 5 600) ''d'' = Inl BAD_ARGUMENTS
   \<and> tryGetLoadable (example_loader [] [] 5 600) ''d'' = Inr None
   \<and> tryGetLoadable_db (example_loader [] [] 5 600) ''db'' ''d'' = Inr None
   \<and> getLoadable (example_loader
        [(''d'', \<lparr>loadable = None, source_type = Filesystem, origin = ''f.xml'', exception = Some (Foreign 7)\<rparr>)]
        [] 5 600) ''d'' = Inl (Foreign 7)
   \<and> getLoadable (example_loader
        [(''d'', \<lparr>loadable = Some (example_dict ''d'' 1 2), source_type = Filesystem, origin = ''f.xml'',
                  exception = Some (Foreign 7)\<rparr>)]
        [] 5 600) ''d'' = Inr (Some (example_dict ''d'' 1 2))"
  using accessors_by_entry [of "example_loader [] [] 5 600" "''d''" "''db''"]
    accessors_by_entry [of "example_loader
        [(''d'', \<lparr>loadable = None, source_type = Filesystem, origin = ''f.xml'', exception = Some (Foreign 7)\<rparr>)]
        [] 5 600" "''d''" "''db''"]
    accessors_by_entry [of "example_loader
        [(''d'', \<lparr>loadable = Some (example_dict ''d'' 1 2), source_type = Filesystem, origin = ''f.xml'',
                  exception = Some (Foreign 7)\<rparr>)]
        [] 5 600" "''d''" "''db''"]
  by (simp add: example_loader_def)

text \<open>
  Claim C4 as stated. A healthy file entry \<open>d\<close> is due for an update and its \<open>clone()\<close>
  throws: \<open>updateObjects\<close> stores the exception in the entry and leaves the old version.
  Then \<open>get(d)\<close> does not throw and \<open>tryGet(d)\<close> is not empty: both return the old
  version. And \<open>get(db, name)\<close> on a name that the registry does not know returns the
  null pointer instead of throwing.
\<close>

theorem accessors_counterexample:
  "objects (snd (updateObjects (example_env 100 (\<lambda>l. Inl (Foreign 7))) False
      \<lparr>objects = [(''d'', \<lparr>loadable = Some (example_dict ''d'' 1 2), source_type = Filesystem,
                           origin = ''f.xml'', exception = None\<rparr>)],
       utimes = (\<lambda>name. 0), n_draws = 0, cloned = []\<rparr>))
   = [(''d'', \<lparr>loadable = Some (example_dict ''d'' 1 2), source_type = Filesystem,
               origin = ''f.xml'', exception = Some (Foreign 7)\<rparr>)]
   \<and> getLoadable (example_loader
        [(''d'', \<lparr>loadable = Some (example_dict ''d'' 1 2), source_type = Filesystem,
                  origin = ''f.xml'', exception = Some (Foreign 7)\<rparr>)] [] 5 600) ''d''
     = Inr (Some (example_dict ''d'' 1 2))
   \<and> tryGetLoadable (example_loader
        [(''d'', \<lparr>loadable = Some (example_dict ''d'' 1 2), source_type = Filesystem,
                  origin = ''f.xml'', exception = Some (Foreign 7)\<rparr>)] [] 5 600) ''d''
     = Inr (Some (example_dict ''d'' 1 2))
   \<and> getLoadable_db (example_loader [] [] 5 600) ''db'' ''missing'' = Inr None"
  by (simp add: updateObjects_def checkLoadableObjectToUpdate_def example_dict_def example_env_def
      example_loader_def getNextUpdateTime_def assign_def getLoadable_def tryGetLoadable_def
      getLoadableImpl_def getLoadable_db_def getLoadableFromDatabasesImpl_def Let_def)

subsection \<open>Which objects the update phase rebuilds\<close>

lemma checkLoadableObjectToUpdate_iff:
  "checkLoadableObjectToUpdate env tm object \<longleftrightarrow>
     (\<exists>current. loadable object = Some current
        \<and> min_sec (getLifetime current) \<noteq> 0 \<and> max_sec (getLifetime current) \<noteq> 0
        \<and> supportUpdates current \<and> tm (getName current) \<le> int (now env) \<and> isModified current)"
  by (auto simp add: checkLoadableObjectToUpdate_def split: option.splits)

lemma objects_to_update_names:
  "n \<in> fst ` set (objects_to_update env tm objs)
     \<longleftrightarrow> (\<exists>object. (n, object) \<in> set objs \<and> checkLoadableObjectToUpdate env tm object)"
proof (induction objs)
  case Nil
  show ?case by simp
next
  case (Cons p objs)
  obtain name object where p: "p = (name, object)" by (cases p)
  show ?case
  proof (cases "checkLoadableObjectToUpdate env tm object")
    case True
    then obtain l where "loadable object = Some l"
      by (auto simp add: checkLoadableObjectToUpdate_def split: option.splits)
    with True Cons.IH p show ?thesis by auto
  next
    case False
    with Cons.IH p show ?thesis by auto
  qed
qed

lemma update_loop_cloned:
  "cloned (snd (update_loop env False xs s)) = cloned s @ map fst xs"
proof (induction xs arbitrary: s)
  case Nil
  show ?case by simp
next
  case (Cons p xs)
  obtain name current where p: "p = (name, current)" by (cases p)
  show ?case
    unfolding p
    by (simp add: Cons.IH Let_def split: option.split prod.split sum.split)
qed

text \<open>
  Claim C5, as the code has it. In the update phase (the background cycle, which does
  not rethrow) \<open>clone()\<close> is called on an entry exactly when the entry holds a loadable,
  neither bound of its lifetime is zero, it supports updates, the current time has
  reached its update time and it is modified. For a lifetime with \<open>max_sec < min_sec\<close>
  the next update time is the epoch, which every later check has reached.
\<close>

theorem update_phase_rebuilds:
  "(cloned s = [] \<longrightarrow>
      (name \<in> set (cloned (snd (updateObjects env False s))) \<longleftrightarrow>
         (\<exists>object current. (name, object) \<in> set (objects s) \<and> loadable object = Some current
            \<and> min_sec (getLifetime current) \<noteq> 0 \<and> max_sec (getLifetime current) \<noteq> 0
            \<and> supportUpdates current \<and> utimes s (getName current) \<le> int (now env) \<and> isModified current)))
   \<and> (max_sec (getLifetime l) < min_sec (getLifetime l) \<longrightarrow>
        fst (getNextUpdateTime env d l) = 0 \<and> fst (getNextUpdateTime env d l) \<le> int (now env))"
proof -
  have "set (cloned (snd (updateObjects env False s)))
          = set (cloned s) \<union> fst ` set (objects_to_update env (utimes s) (objects s))"
    by (simp add: updateObjects_def update_loop_cloned)
  then have "cloned s = [] \<Longrightarrow>
      (name \<in> set (cloned (snd (updateObjects env False s)))
         \<longleftrightarrow> (\<exists>object. (name, object) \<in> set (objects s)
               \<and> checkLoadableObjectToUpdate env (utimes s) object))"
    by (simp add: objects_to_update_names)
  then show ?thesis
    unfolding checkLoadableObjectToUpdate_iff
    by (auto simp add: getNextUpdateTime_def Let_def)
qed

theorem update_phase_rebuilds_witness:
  "cloned (snd (updateObjects (example_env 100 (\<lambda>l. Inr l)) False
      \<lparr>objects = [(''d'', \<lparr>loadable = Some (example_dict ''d'' 1 2), source_type = Filesystem,
                           origin = ''f.xml'', exception = None\<rparr>)],
       utimes = (\<lambda>name. 0), n_draws = 0, cloned = []\<rparr>)) = [''d'']
   \<and> fst (getNextUpdateTime (example_env 100 (\<lambda>l. Inr l)) 0 (example_dict ''d'' 5 3)) = 0"
proof -
  let ?s = "\<lparr>objects = [(''d'', \<lparr>loadable = Some (example_dict ''d'' 1 2), source_type = Filesystem,
                           origin = ''f.xml'', exception = None\<rparr>)],
       utimes = (\<lambda>name. 0), n_draws = 0, cloned = []\<rparr>"
  let ?env = "example_env 100 (\<lambda>l. Inr l)"
  have a: "''d'' \<in> set (cloned (snd (updateObjects ?env False ?s)))"
    using update_phase_rebuilds [of ?s "''d''" ?env "example_dict ''d'' 5 3" 0]
    by (simp add: example_dict_def example_env_def)
  have b: "fst (getNextUpdateTime ?env 0 (example_dict ''d'' 5 3)) = 0"
    using update_phase_rebuilds [of ?s "''d''" ?env "example_dict ''d'' 5 3" 0]
    by (simp add: example_dict_def)
  have c: "cloned (snd (updateObjects ?env False ?s)) = [''d'']"
    by (simp add: updateObjects_def checkLoadableObjectToUpdate_def example_dict_def example_env_def
        getNextUpdateTime_def assign_def Let_def)
  from a b c show ?thesis by simp
qed

text \<open>
  Claim C5 as stated. An entry with lifetime \<open>(0, 5)\<close> supports updates, is modified, has
  a lifetime other than \<open>(0, 0)\<close> and is past its update time, and the update phase does
  not clone it. An entry with lifetime \<open>(5, 3)\<close>, added to the catalog map at time 100, is
  cloned by the update phase that runs at that same time.
\<close>

theorem update_phase_counterexample:
  "supportUpdates (example_dict ''d'' 0 5) \<and> isModified (example_dict ''d'' 0 5)
   \<and> getLifetime (example_dict ''d'' 0 5) \<noteq> \<lparr>min_sec = 0, max_sec = 0\<rparr>
   \<and> (0::nat) \<le> 100
   \<and> cloned (snd (updateObjects (example_env 100 (\<lambda>l. Inr l)) False
        \<lparr>objects = [(''d'', \<lparr>loadable = Some (example_dict ''d'' 0 5), source_type = Filesystem,
                             origin = ''f.xml'', exception = None\<rparr>)],
         utimes = (\<lambda>name. 0), n_draws = 0, cloned = []\<rparr>)) = []
   \<and> (case addObjectFromDatabase (example_env 100 (\<lambda>l. Inr l)) ''db'' ''d'' (example_dict ''db.d'' 5 3)
             (example_loader [] [] 5 600) of
         Inl e \<Rightarrow> [''error'']
       | Inr ldr \<Rightarrow> snd (snd (updateAll (example_env 100 (\<lambda>l. Inr l)) False ldr))) = [''db.d'']"
  by (simp add: updateObjects_def updateAll_def addObjectFromDatabase_def checkLoadableObjectToUpdate_def
      example_dict_def example_env_def example_loader_def getNextUpdateTime_def assign_def Let_def)

subsection \<open>Backoff of a failing object\<close>

definition draws_in_range :: "loader_env \<Rightarrow> bool" where
  "draws_in_range env = (\<forall>k lo hi. lo \<le> hi \<longrightarrow> lo \<le> uniform env k lo hi \<and> uniform env k lo hi \<le> hi)"

lemma retry_failed_object_failure:
  assumes due: "next_attempt_time fi \<le> int (now env)"
    and cl: "clone env (failed_loadable fi) = Inr l"
    and ex: "getCreationException l = Some e"
    and k: "error_count fi < 64"
  shows "retry_failed_object env name fi ldr =
     (Failed e,
      fi\<lparr>next_attempt_time := plus_seconds (int (now env))
               (seconds_from_UInt64
                 (min (backoff_max_sec (update_settings ldr))
                   (UInt64_add (backoff_initial_sec (update_settings ldr))
                      (uniform env (draws ldr) 0 (2 ^ error_count fi))))),
           error_count := error_count fi + 1\<rparr>,
      ldr\<lparr>draws := Suc (draws ldr)\<rparr>)"
proof -
  have "Suc (error_count fi) < 2 ^ 64"
    using k by simp
  then show ?thesis
    using due cl ex k
    by (simp add: retry_failed_object_def exp2_UInt64_def Let_def)
qed

lemma retry_failed_object_success:
  assumes due: "next_attempt_time fi \<le> int (now env)"
    and cl: "clone env (failed_loadable fi) = Inr l"
    and ex: "getCreationException l = None"
  shows "fst (retry_failed_object env name fi ldr) = Recreated
         \<or> fst (retry_failed_object env name fi ldr) = Undefined_behaviour"
  using assms
  by (simp add: retry_failed_object_def Let_def split: prod.split option.split)

lemma retry_loop_keeps:
  "retry_loop env t d xs r st = (Returned, failed', rec', ldr') \<Longrightarrow> set r \<subseteq> set rec'"
proof (induction xs arbitrary: d r st)
  case Nil
  then show ?case by simp
next
  case (Cons q xs)
  obtain n2 i2 where q: "q = (n2, i2)" by (cases q)
  obtain oc2 j2 l2 where r2: "retry_failed_object env n2 i2 st = (oc2, j2, l2)"
    by (cases "retry_failed_object env n2 i2 st")
  show ?case
  proof (cases oc2)
    case Skipped
    with Cons.prems q r2 have "retry_loop env t (d @ [(n2, j2)]) xs r l2 = (Returned, failed', rec', ldr')"
      by simp
    then show ?thesis by (rule Cons.IH)
  next
    case (Failed e)
    with Cons.prems q r2 have "retry_loop env t (d @ [(n2, j2)]) xs r l2 = (Returned, failed', rec', ldr')"
      by (simp split: if_splits)
    then show ?thesis by (rule Cons.IH)
  next
    case Recreated
    with Cons.prems q r2 have "retry_loop env t (d @ [(n2, j2)]) xs (r @ [n2]) l2 = (Returned, failed', rec', ldr')"
      by simp
    then have "set (r @ [n2]) \<subseteq> set rec'" by (rule Cons.IH)
    then show ?thesis by simp
  next
    case Undefined_behaviour
    with Cons.prems q r2 show ?thesis by simp
  qed
qed

lemma retry_loop_recreated:
  assumes "retry_loop env t done xs rec ldr = (Returned, failed', rec', ldr')"
    and "(name, fi) \<in> set xs"
    and "next_attempt_time fi \<le> int (now env)"
    and "clone env (failed_loadable fi) = Inr l"
    and "getCreationException l = None"
  shows "name \<in> set rec'"
  using assms(1,2)
proof (induction xs arbitrary: "done" rec ldr)
  case Nil
  then show ?case by simp
next
  case (Cons p xs)
  obtain n i where p: "p = (n, i)" by (cases p)
  obtain oc i' l' where r: "retry_failed_object env n i ldr = (oc, i', l')"
    by (cases "retry_failed_object env n i ldr")
  show ?case
  proof (cases "(name, fi) = p")
    case True
    then have ni: "n = name" "i = fi" using p by simp_all
    from retry_failed_object_success [OF assms(3) assms(4) assms(5), of name ldr] r ni
    have "oc = Recreated \<or> oc = Undefined_behaviour" by simp
    then show ?thesis
    proof
      assume "oc = Recreated"
      with Cons.prems(1) p r have "retry_loop env t (done @ [(n, i')]) xs (rec @ [n]) l' = (Returned, failed', rec', ldr')"
        by simp
      from retry_loop_keeps [OF this] ni show ?thesis by simp
    next
      assume "oc = Undefined_behaviour"
      with Cons.prems(1) p r show ?thesis by simp
    qed
  next
    case False
    with Cons.prems(2) have mem: "(name, fi) \<in> set xs" by auto
    show ?thesis
    proof (cases oc)
      case Skipped
      with Cons.prems(1) p r have "retry_loop env t (done @ [(n, i')]) xs rec l' = (Returned, failed', rec', ldr')"
        by simp
      from Cons.IH [OF this mem] show ?thesis .
    next
      case (Failed e)
      with Cons.prems(1) p r have "retry_loop env t (done @ [(n, i')]) xs rec l' = (Returned, failed', rec', ldr')"
        by (simp split: if_splits)
      from Cons.IH [OF this mem] show ?thesis .
    next
      case Recreated
      with Cons.prems(1) p r have "retry_loop env t (done @ [(n, i')]) xs (rec @ [n]) l' = (Returned, failed', rec', ldr')"
        by simp
      from Cons.IH [OF this mem] show ?thesis .
    next
      case Undefined_behaviour
      with Cons.prems(1) p r show ?thesis by simp
    qed
  qed
qed

lemma erase_removes: "name \<notin> fst ` set (erase name xs)"
  by (auto simp add: erase_def)

lemma erase_subset: "fst ` set (erase n xs) \<subseteq> fst ` set xs"
  by (auto simp add: erase_def)

lemma fold_erase_subset: "fst ` set (fold erase ns xs) \<subseteq> fst ` set xs"
proof (induction ns arbitrary: xs)
  case Nil
  show ?case by simp
next
  case (Cons n ns)
  have "fst ` set (fold erase ns (erase n xs)) \<subseteq> fst ` set (erase n xs)" by (rule Cons.IH)
  with erase_subset [of n xs] show ?case by auto
qed

lemma fold_erase_removes: "name \<in> set ns \<Longrightarrow> name \<notin> fst ` set (fold erase ns xs)"
proof (induction ns arbitrary: xs)
  case Nil
  then show ?case by simp
next
  case (Cons n ns)
  show ?case
  proof (cases "name = n")
    case True
    have "fst ` set (fold erase ns (erase n xs)) \<subseteq> fst ` set (erase n xs)" by (rule fold_erase_subset)
    with erase_removes [of n xs] True show ?thesis by auto
  next
    case False
    with Cons.prems have "name \<in> set ns" by simp
    from Cons.IH [OF this] show ?thesis by simp
  qed
qed

lemma plus_seconds_in_range:
  assumes "int t + int d * 1000000000 < 2 ^ 63"
  shows "plus_seconds (int t) (seconds_from_UInt64 d) = int t + int d * 1000000000"
proof -
  have d: "int d * 1000000000 < 2 ^ 63" using assms by linarith
  then have d': "int d < 2 ^ 63" by linarith
  have w: "\<And>x::int. 0 \<le> x \<Longrightarrow> x < 2 ^ 63 \<Longrightarrow> wrap_Int64 x = x"
    by (simp add: wrap_Int64_def)
  have "seconds_from_UInt64 d = int d"
    using d' by (simp add: seconds_from_UInt64_def w)
  moreover have "wrap_Int64 (int d * 1000000000) = int d * 1000000000"
    using d by (simp add: w)
  moreover have "wrap_Int64 (int t + int d * 1000000000) = int t + int d * 1000000000"
    using assms by (simp add: w)
  ultimately show ?thesis by (simp add: plus_seconds_def)
qed

text \<open>
  Claim C6, as the code has it. The distribution returns a number within its bounds.
  For a failure record that is due, with \<open>error_count = k < 64\<close>, whose clone reports a
  creation exception, \<open>error_count\<close> becomes \<open>k + 1\<close>; and when the clock's reading plus
  \<open>backoff_max\<close> seconds fits the signed 64-bit count of nanoseconds: the new attempt
  time is \<open>now\<close> plus \<open>min(backoff_max, (backoff_initial + u) mod 2^64)\<close> seconds for a
  draw \<open>u\<close> in \<open>[0, 2^k]\<close>; the delay is at most \<open>backoff_max\<close> seconds; it is at least
  \<open>backoff_initial\<close> seconds when \<open>backoff_initial \<le> backoff_max\<close> and the sum does not
  wrap. When instead the clone of a due record succeeds and the retry phase returns, the
  record is erased from the failure set, so no error count remains for that name.
\<close>

theorem retry_backoff:
  assumes "draws_in_range env"
  shows
  "(next_attempt_time fi \<le> int (now env) \<and> clone env (failed_loadable fi) = Inr l
      \<and> getCreationException l = Some e \<and> error_count fi < 64 \<longrightarrow>
      (\<exists>u fi' ldr'. u \<le> 2 ^ error_count fi
         \<and> retry_failed_object env name fi ldr = (Failed e, fi', ldr')
         \<and> error_count fi' = error_count fi + 1
         \<and> (int (now env) + int (backoff_max_sec (update_settings ldr)) * 1000000000 < 2 ^ 63 \<longrightarrow>
              next_attempt_time fi' = int (now env)
                + int (min (backoff_max_sec (update_settings ldr))
                        ((backoff_initial_sec (update_settings ldr) + u) mod 2 ^ 64)) * 1000000000
            \<and> next_attempt_time fi' - int (now env)
                \<le> int (backoff_max_sec (update_settings ldr)) * 1000000000
            \<and> (backoff_initial_sec (update_settings ldr) \<le> backoff_max_sec (update_settings ldr)
                 \<and> backoff_initial_sec (update_settings ldr) + 2 ^ error_count fi < 2 ^ 64
                 \<longrightarrow> int (backoff_initial_sec (update_settings ldr)) * 1000000000
                       \<le> next_attempt_time fi' - int (now env)))))
   \<and> ((name, fi) \<in> set (failed_loadable_objects ldr) \<and> next_attempt_time fi \<le> int (now env)
        \<and> clone env (failed_loadable fi) = Inr l \<and> getCreationException l = None
        \<and> fst (retry_failed_loadable_objects env t ldr) = Returned \<longrightarrow>
        map_of (failed_loadable_objects (snd (retry_failed_loadable_objects env t ldr))) name = None)"
proof (intro conjI impI)
  assume h: "next_attempt_time fi \<le> int (now env) \<and> clone env (failed_loadable fi) = Inr l
      \<and> getCreationException l = Some e \<and> error_count fi < 64"
  let ?u = "uniform env (draws ldr) 0 (2 ^ error_count fi)"
  let ?ini = "backoff_initial_sec (update_settings ldr)"
  let ?max = "backoff_max_sec (update_settings ldr)"
  let ?delay = "min ?max ((?ini + ?u) mod 2 ^ 64)"
  let ?fi = "fi\<lparr>next_attempt_time := plus_seconds (int (now env)) (seconds_from_UInt64 ?delay),
           error_count := error_count fi + 1\<rparr>"
  have u: "?u \<le> 2 ^ error_count fi"
    using assms by (simp add: draws_in_range_def)
  have r: "retry_failed_object env name fi ldr = (Failed e, ?fi, ldr\<lparr>draws := Suc (draws ldr)\<rparr>)"
    using h retry_failed_object_failure [of fi env l e name ldr] by (simp add: UInt64_add_def)
  have lower: "?ini \<le> ?max \<and> ?ini + 2 ^ error_count fi < 2 ^ 64 \<longrightarrow> ?ini \<le> ?delay"
  proof
    assume a: "?ini \<le> ?max \<and> ?ini + 2 ^ error_count fi < 2 ^ 64"
    with u have "?ini + ?u < 2 ^ 64" by linarith
    then have "(?ini + ?u) mod 2 ^ 64 = ?ini + ?u" by simp
    with a show "?ini \<le> ?delay" by simp
  qed
  have upper: "?delay \<le> ?max" by simp
  have timing: "int (now env) + int ?max * 1000000000 < 2 ^ 63 \<longrightarrow>
       next_attempt_time ?fi = int (now env) + int ?delay * 1000000000
     \<and> next_attempt_time ?fi - int (now env) \<le> int ?max * 1000000000
     \<and> (?ini \<le> ?max \<and> ?ini + 2 ^ error_count fi < 2 ^ 64
          \<longrightarrow> int ?ini * 1000000000 \<le> next_attempt_time ?fi - int (now env))"
  proof
    assume fit: "int (now env) + int ?max * 1000000000 < 2 ^ 63"
    from upper have "int ?delay * 1000000000 \<le> int ?max * 1000000000"
      by (simp only: mult_le_cancel_right zle_int) simp
    with fit have "int (now env) + int ?delay * 1000000000 < 2 ^ 63" by linarith
    then have eq: "plus_seconds (int (now env)) (seconds_from_UInt64 ?delay)
        = int (now env) + int ?delay * 1000000000"
      by (rule plus_seconds_in_range)
    have lo: "?ini \<le> ?max \<and> ?ini + 2 ^ error_count fi < 2 ^ 64
        \<longrightarrow> int ?ini * 1000000000 \<le> int ?delay * 1000000000"
    proof
      assume "?ini \<le> ?max \<and> ?ini + 2 ^ error_count fi < 2 ^ 64"
      with lower have "?ini \<le> ?delay" by blast
      then show "int ?ini * 1000000000 \<le> int ?delay * 1000000000"
        by (simp only: mult_le_cancel_right zle_int) simp
    qed
    from eq lo \<open>int ?delay * 1000000000 \<le> int ?max * 1000000000\<close>
    show "next_attempt_time ?fi = int (now env) + int ?delay * 1000000000
     \<and> next_attempt_time ?fi - int (now env) \<le> int ?max * 1000000000
     \<and> (?ini \<le> ?max \<and> ?ini + 2 ^ error_count fi < 2 ^ 64
          \<longrightarrow> int ?ini * 1000000000 \<le> next_attempt_time ?fi - int (now env))"
      by simp
  qed
  show "\<exists>u fi' ldr'. u \<le> 2 ^ error_count fi
         \<and> retry_failed_object env name fi ldr = (Failed e, fi', ldr')
         \<and> error_count fi' = error_count fi + 1
         \<and> (int (now env) + int ?max * 1000000000 < 2 ^ 63 \<longrightarrow>
              next_attempt_time fi' = int (now env) + int (min ?max ((?ini + u) mod 2 ^ 64)) * 1000000000
            \<and> next_attempt_time fi' - int (now env) \<le> int ?max * 1000000000
            \<and> (?ini \<le> ?max \<and> ?ini + 2 ^ error_count fi < 2 ^ 64
                 \<longrightarrow> int ?ini * 1000000000 \<le> next_attempt_time fi' - int (now env)))"
    apply (rule exI [of _ ?u])
    apply (rule exI [of _ ?fi])
    apply (rule exI [of _ "ldr\<lparr>draws := Suc (draws ldr)\<rparr>"])
    using u r timing by simp
next
  assume h: "(name, fi) \<in> set (failed_loadable_objects ldr) \<and> next_attempt_time fi \<le> int (now env)
        \<and> clone env (failed_loadable fi) = Inr l \<and> getCreationException l = None
        \<and> fst (retry_failed_loadable_objects env t ldr) = Returned"
  obtain st failed' rec' ldr' where
    loop: "retry_loop env t [] (failed_loadable_objects ldr) [] ldr = (st, failed', rec', ldr')"
    by (cases "retry_loop env t [] (failed_loadable_objects ldr) [] ldr")
  from h loop have st: "st = Returned"
    by (cases st) (simp_all add: retry_failed_loadable_objects_def)
  from retry_loop_recreated [OF loop [unfolded st]] h have "name \<in> set rec'" by blast
  then have "name \<notin> fst ` set (fold erase rec' failed')" by (rule fold_erase_removes)
  then have "map_of (fold erase rec' failed') name = None"
    by (simp add: map_of_eq_None_iff)
  with loop st show "map_of (failed_loadable_objects (snd (retry_failed_loadable_objects env t ldr))) name = None"
    by (simp add: retry_failed_loadable_objects_def)
qed

text \<open>A failure record of the example dictionary, next due \<open>t\<close> seconds after the epoch.\<close>

definition example_failed :: "nat \<Rightarrow> nat \<Rightarrow> failed_loadable_info" where
  "example_failed t k =
     \<lparr>failed_loadable = example_dict ''d'' 1 2, next_attempt_time = int t * 1000000000, error_count = k\<rparr>"

definition clone_with_exception :: "external_loadable \<Rightarrow> exn + external_loadable" where
  "clone_with_exception l = Inr (l\<lparr>getCreationException := Some (Foreign 7)\<rparr>)"

theorem retry_backoff_witness:
  "draws_in_range (example_env 100 clone_with_exception)
   \<and> draws_in_range (example_env 100 Inr)
   \<and> (\<exists>u fi' ldr'. u \<le> 2 ^ 2
        \<and> retry_failed_object (example_env 100 clone_with_exception) ''d'' (example_failed 50 2)
             (example_loader [] [(''d'', example_failed 50 2)] 5 600) = (Failed (Foreign 7), fi', ldr')
        \<and> error_count fi' = 3
        \<and> next_attempt_time fi' = 100000000000 + int (min 600 ((5 + u) mod 2 ^ 64)) * 1000000000
        \<and> next_attempt_time fi' - 100000000000 \<le> 600000000000
        \<and> 5000000000 \<le> next_attempt_time fi' - 100000000000)
   \<and> map_of (failed_loadable_objects (snd (retry_failed_loadable_objects (example_env 100 Inr) False
        (example_loader
           [(''d'', \<lparr>loadable = None, source_type = Filesystem, origin = ''f.xml'', exception = Some (Foreign 7)\<rparr>)]
           [(''d'', example_failed 50 2)] 5 600)))) ''d'' = None"
proof -
  let ?envF = "example_env 100 clone_with_exception"
  let ?envS = "example_env 100 Inr"
  let ?ldrF = "example_loader [] [(''d'', example_failed 50 2)] 5 600"
  let ?ldrS = "example_loader
           [(''d'', \<lparr>loadable = None, source_type = Filesystem, origin = ''f.xml'', exception = Some (Foreign 7)\<rparr>)]
           [(''d'', example_failed 50 2)] 5 600"
  have rF: "draws_in_range ?envF" by (simp add: draws_in_range_def example_env_def)
  have rS: "draws_in_range ?envS" by (simp add: draws_in_range_def example_env_def)
  have hF: "next_attempt_time (example_failed 50 2) \<le> int (now ?envF)
      \<and> clone ?envF (failed_loadable (example_failed 50 2))
          = Inr ((example_dict ''d'' 1 2)\<lparr>getCreationException := Some (Foreign 7)\<rparr>)
      \<and> getCreationException ((example_dict ''d'' 1 2)\<lparr>getCreationException := Some (Foreign 7)\<rparr>) = Some (Foreign 7)
      \<and> error_count (example_failed 50 2) < 64"
    by (simp add: example_failed_def example_env_def clone_with_exception_def)
  have hS: "(''d'', example_failed 50 2) \<in> set (failed_loadable_objects ?ldrS)
      \<and> next_attempt_time (example_failed 50 2) \<le> int (now ?envS)
      \<and> clone ?envS (failed_loadable (example_failed 50 2)) = Inr (example_dict ''d'' 1 2)
      \<and> getCreationException (example_dict ''d'' 1 2) = None
      \<and> fst (retry_failed_loadable_objects ?envS False ?ldrS) = Returned"
    by (simp add: example_failed_def example_env_def example_loader_def example_dict_def
        retry_failed_loadable_objects_def retry_failed_object_def getNextUpdateTime_def Let_def)
  have vals: "error_count (example_failed 50 2) = 2" "int (now ?envF) = 100000000000"
    "backoff_max_sec (update_settings ?ldrF) = 600" "backoff_initial_sec (update_settings ?ldrF) = 5"
    by (simp_all add: example_failed_def example_env_def example_loader_def)
  from retry_backoff [OF rF, of "example_failed 50 2"
      "(example_dict ''d'' 1 2)\<lparr>getCreationException := Some (Foreign 7)\<rparr>" "Foreign 7" "''d''" ?ldrF False] hF
  have a: "\<exists>u fi' ldr'. u \<le> 2 ^ error_count (example_failed 50 2)
         \<and> retry_failed_object ?envF ''d'' (example_failed 50 2) ?ldrF = (Failed (Foreign 7), fi', ldr')
         \<and> error_count fi' = error_count (example_failed 50 2) + 1
         \<and> (int (now ?envF) + int (backoff_max_sec (update_settings ?ldrF)) * 1000000000 < 2 ^ 63 \<longrightarrow>
              next_attempt_time fi' = int (now ?envF)
                + int (min (backoff_max_sec (update_settings ?ldrF))
                        ((backoff_initial_sec (update_settings ?ldrF) + u) mod 2 ^ 64)) * 1000000000
            \<and> next_attempt_time fi' - int (now ?envF)
                \<le> int (backoff_max_sec (update_settings ?ldrF)) * 1000000000
            \<and> (backoff_initial_sec (update_settings ?ldrF) \<le> backoff_max_sec (update_settings ?ldrF)
                 \<and> backoff_initial_sec (update_settings ?ldrF) + 2 ^ error_count (example_failed 50 2) < 2 ^ 64
                 \<longrightarrow> int (backoff_initial_sec (update_settings ?ldrF)) * 1000000000
                       \<le> next_attempt_time fi' - int (now ?envF)))"
    by blast
  from a have a': "\<exists>u fi' ldr'. u \<le> 2 ^ 2
        \<and> retry_failed_object ?envF ''d'' (example_failed 50 2) ?ldrF = (Failed (Foreign 7), fi', ldr')
        \<and> error_count fi' = 3
        \<and> next_attempt_time fi' = 100000000000 + int (min 600 ((5 + u) mod 2 ^ 64)) * 1000000000
        \<and> next_attempt_time fi' - 100000000000 \<le> 600000000000
        \<and> 5000000000 \<le> next_attempt_time fi' - 100000000000"
    unfolding vals by simp
  from retry_backoff [OF rS, of "example_failed 50 2" "example_dict ''d'' 1 2" "Foreign 7" "''d''" ?ldrS False] hS
  have b: "map_of (failed_loadable_objects (snd (retry_failed_loadable_objects ?envS False ?ldrS))) ''d'' = None"
    by blast
  from rF rS a' b show ?thesis by blast
qed

text \<open>
  Claim C6 as stated. With \<open>backoff_initial = 10\<close> and \<open>backoff_max = 5\<close> the failing
  object is rescheduled 5 seconds ahead, less than \<open>backoff_initial\<close>. With both
  settings at \<open>2^64 - 1\<close> the seconds convert to \<open>-1\<close> and the new attempt time is one
  second before \<open>now\<close>; with both at \<open>2^63\<close> the nanoseconds overflow and the new
  attempt time is \<open>now\<close>. When \<open>clone()\<close> itself throws, the attempt has failed and the
  record is left as it was: no increment of \<open>error_count\<close>, no new attempt time. With
  \<open>backoff_initial = 2^64 - 1\<close> and a draw of 1 the sum wraps to 0. With
  \<open>error_count = 64\<close> the bound of the distribution is not defined.
\<close>

theorem retry_backoff_counterexample:
  "fst (snd (retry_failed_object (example_env 100 clone_with_exception) ''d'' (example_failed 50 0)
        (example_loader [] [(''d'', example_failed 50 0)] 10 5)))
     = example_failed 105 1
   \<and> (105::nat) - 100 < 10
   \<and> fst (snd (retry_failed_object (example_env 100 clone_with_exception) ''d'' (example_failed 50 0)
        (example_loader [] [(''d'', example_failed 50 0)] (2 ^ 64 - 1) (2 ^ 64 - 1))))
     = example_failed 99 1
   \<and> fst (snd (retry_failed_object (example_env 100 clone_with_exception) ''d'' (example_failed 50 0)
        (example_loader [] [(''d'', example_failed 50 0)] (2 ^ 63) (2 ^ 63))))
     = example_failed 100 1
   \<and> retry_failed_object (example_env 100 (\<lambda>l. Inl (Foreign 7))) ''d'' (example_failed 50 0)
        (example_loader [] [(''d'', example_failed 50 0)] 5 600)
     = (Failed (Foreign 7), example_failed 50 0, example_loader [] [(''d'', example_failed 50 0)] 5 600)
   \<and> fst (snd (retry_failed_object
        \<lparr>now = 100000000000, clone = clone_with_exception, uniform = (\<lambda>k lo hi. hi)\<rparr> ''d'' (example_failed 50 0)
        (example_loader [] [(''d'', example_failed 50 0)] (2 ^ 64 - 1) (2 ^ 64 - 1))))
     = example_failed 100 1
   \<and> fst (retry_failed_object (example_env 100 clone_with_exception) ''d'' (example_failed 50 64)
        (example_loader [] [(''d'', example_failed 50 64)] 5 600)) = Undefined_behaviour"
  by (simp add: retry_failed_object_def example_env_def example_failed_def example_loader_def
      example_dict_def clone_with_exception_def exp2_UInt64_def UInt64_add_def
      plus_seconds_def seconds_from_UInt64_def wrap_Int64_def Let_def)

section \<open>Materialized View Controller (src/Storages/StorageMaterializedView.cpp)\<close>

text \<open>
  A storage id; the UUID is kept in its textual form and the nil UUID is the empty string.
\<close>

record storage_id =
  database_name :: string
  table_name :: string
  uuid :: string

definition hasUUID :: "storage_id \<Rightarrow> bool" where
  "hasUUID sid = (uuid sid \<noteq> [])"

definition generateInnerTableName :: "storage_id \<Rightarrow> string" where
  "generateInnerTableName view_id =
     (if hasUUID view_id then ''.inner_id.'' @ uuid view_id
      else ''.inner.'' @ table_name view_id)"

text \<open>
  The catalog maps a database name and a table name to the table stored there: its UUID
  and its rows.
\<close>

record stored_table =
  table_uuid :: string
  table_rows :: "nat list"

type_synonym table_ref = "string \<times> string"

type_synonym catalog = "table_ref \<Rightarrow> stored_table option"

record materialized_view =
  view_id :: storage_id
  target_table_id :: storage_id
  has_inner_table :: bool
  last_refresh_time :: nat

text \<open>
  An element of a rename query names two tables. The statements that \<open>refresh\<close> hands
  to the interpreters are recorded as it issues them: the CREATE of a table with the
  definition of another one, the INSERT of the saved SELECT, the RENAME with its
  elements and the \<open>exchange\<close> flag set, the DROP.
\<close>

record rename_element =
  rename_from :: table_ref
  rename_to :: table_ref

datatype statement =
    Create_as table_ref table_ref
  | Insert_select table_ref
  | Rename_exchange "rename_element list"
  | Drop_table table_ref

text \<open>
  The points at which a collaborator can fail for a reason of its own, in the order of
  the source. \<open>Cleanup_drop\<close> is the DROP in the \<open>catch\<close> handler.
\<close>

datatype refresh_step =
    Get_create_query | Execute_create | Execute_insert | Execute_rename | Get_table | Execute_drop
  | Cleanup_drop

text \<open>
  What \<open>refresh\<close> gets from outside: the clock, the rows that the saved SELECT yields,
  the UUID that the database gives to a table created without one, the value that
  \<open>std::move\<close> leaves in the rename element it was applied to, and for every step the
  exception it throws when the collaborator fails for a reason of its own.
\<close>

record refresh_env =
  refresh_now :: nat
  select_rows :: "nat list"
  new_uuid :: string
  moved_from :: rename_element
  fault :: "refresh_step \<Rightarrow> exn option"

text \<open>
  Modelled from the spec: the interpreters and the catalog are collaborators whose code
  is not part of the sources. A statement that fails for a reason of its own throws
  before it has changed the catalog. Otherwise it has the effect that section 4.6 of the
  specification gives it: CREATE adds an empty table under the new name, INSERT fills it
  with the rows of the SELECT, an exchange swaps two tables, DROP removes the table. A
  statement on a missing table, and a CREATE of an existing one, throw. A RENAME carries
  out the exchanges of its elements in turn; when one of them throws, the exchanges
  before it stay.
\<close>

definition execute_create :: "refresh_env \<Rightarrow> table_ref \<Rightarrow> table_ref \<Rightarrow> catalog \<Rightarrow> exn + catalog" where
  "execute_create env new_table like_table c =
     (case fault env Get_create_query of
        Some e \<Rightarrow> Inl e
      | None \<Rightarrow>
          if c like_table = None then Inl (Foreign 60)
          else
            case fault env Execute_create of
              Some e \<Rightarrow> Inl e
            | None \<Rightarrow>
                if c new_table \<noteq> None then Inl (Foreign 57)
                else Inr (c(new_table \<mapsto> \<lparr>table_uuid = new_uuid env, table_rows = []\<rparr>)))"

definition execute_insert :: "refresh_env \<Rightarrow> table_ref \<Rightarrow> catalog \<Rightarrow> exn + catalog" where
  "execute_insert env tbl c =
     (case fault env Execute_insert of
        Some e \<Rightarrow> Inl e
      | None \<Rightarrow>
          (case c tbl of
             None \<Rightarrow> Inl (Foreign 60)
           | Some t \<Rightarrow> Inr (c(tbl \<mapsto> t\<lparr>table_rows := table_rows t @ select_rows env\<rparr>))))"

definition exchange_tables :: "rename_element \<Rightarrow> catalog \<Rightarrow> exn + catalog" where
  "exchange_tables elem c =
     (case (c (rename_from elem), c (rename_to elem)) of
        (Some a, Some b) \<Rightarrow> Inr (c(rename_from elem \<mapsto> b, rename_to elem \<mapsto> a))
      | _ \<Rightarrow> Inl (Foreign 60))"

text \<open>The exception that ends the exchanges, if any, and the catalog as they leave it.\<close>

fun exchange_all :: "rename_element list \<Rightarrow> catalog \<Rightarrow> exn option \<times> catalog" where
  "exchange_all [] c = (None, c)"
| "exchange_all (elem # elements) c =
     (case exchange_tables elem c of
        Inl e \<Rightarrow> (Some e, c)
      | Inr c' \<Rightarrow> exchange_all elements c')"

definition execute_rename :: "refresh_env \<Rightarrow> rename_element list \<Rightarrow> catalog \<Rightarrow> exn option \<times> catalog" where
  "execute_rename env elements c =
     (case fault env Execute_rename of
        Some e \<Rightarrow> (Some e, c)
      | None \<Rightarrow> exchange_all elements c)"

definition get_table :: "refresh_env \<Rightarrow> table_ref \<Rightarrow> catalog \<Rightarrow> exn + storage_id" where
  "get_table env tbl c =
     (case fault env Get_table of
        Some e \<Rightarrow> Inl e
      | None \<Rightarrow>
          (case c tbl of
             None \<Rightarrow> Inl (Foreign 60)
           | Some t \<Rightarrow> Inr \<lparr>database_name = fst tbl, table_name = snd tbl, uuid = table_uuid t\<rparr>))"

definition execute_drop :: "refresh_env \<Rightarrow> refresh_step \<Rightarrow> table_ref \<Rightarrow> catalog \<Rightarrow> exn + catalog" where
  "execute_drop env step tbl c =
     (case fault env step of
        Some e \<Rightarrow> Inl e
      | None \<Rightarrow> if c tbl = None then Inl (Foreign 60) else Inr (c(tbl := None)))"

text \<open>
  The state that the \<open>try\<close> block of \<open>refresh\<close> works on: the two flags, the view, the
  catalog and the statements issued so far. The block returns the exception that left
  it, if any, with the state at that point.

  The rename query gets two elements: \<open>elem\<close> is moved into the first,
  \<open>push_back(std::move(elem))\<close>, and what the move has left of \<open>elem\<close> is copied into
  the second, \<open>emplace_back(elem)\<close>.
\<close>

record refresh_state =
  created :: bool
  replaced :: bool
  view :: materialized_view
  cat :: catalog
  issued :: "statement list"

definition issue :: "statement \<Rightarrow> refresh_state \<Rightarrow> refresh_state" where
  "issue st s = s\<lparr>issued := issued s @ [st]\<rparr>"

definition refresh_try :: "refresh_env \<Rightarrow> string \<Rightarrow> refresh_state \<Rightarrow> exn option \<times> refresh_state" where
  "refresh_try env table_to_replace_name s =
     (let db = database_name (target_table_id (view s));
          target = (db, table_name (target_table_id (view s)));
          tmp = (db, table_to_replace_name);
          s0 = issue (Create_as tmp target) s
      in case execute_create env tmp target (cat s0) of
           Inl e \<Rightarrow> (Some e, s0)
         | Inr c1 \<Rightarrow>
             let s1 = issue (Insert_select tmp) (s0\<lparr>cat := c1, created := True\<rparr>)
             in case execute_insert env tmp (cat s1) of
                  Inl e \<Rightarrow> (Some e, s1)
                | Inr c2 \<Rightarrow>
                    let elem = \<lparr>rename_from = tmp, rename_to = target\<rparr>;
                        elements = [elem, moved_from env];
                        s2 = issue (Rename_exchange elements) (s1\<lparr>cat := c2\<rparr>)
                    in case execute_rename env elements (cat s2) of
                         (Some e, c3) \<Rightarrow> (Some e, s2\<lparr>cat := c3\<rparr>)
                       | (None, c3) \<Rightarrow>
                           let s3 = s2\<lparr>cat := c3\<rparr>
                           in case get_table env target (cat s3) of
                                Inl e \<Rightarrow> (Some e, s3)
                              | Inr new_id \<Rightarrow>
                                  let s4 = issue (Drop_table tmp)
                                             (s3\<lparr>view := (view s3)\<lparr>target_table_id := new_id\<rparr>,
                                                 replaced := True\<rparr>)
                                  in case execute_drop env Execute_drop tmp (cat s4) of
                                       Inl e \<Rightarrow> (Some e, s4)
                                     | Inr c5 \<Rightarrow> (None, s4\<lparr>cat := c5\<rparr>))"

text \<open>
  \<open>refresh\<close>: the name of the temporary table, then the \<open>try\<close> block, the handler and
  the time stamp. The result holds the exception that leaves \<open>refresh\<close>, if any, the
  view, the catalog and the statements issued. An exception thrown by the DROP inside
  the handler replaces the one being handled.
\<close>

record refresh_result =
  thrown :: "exn option"
  view_after :: materialized_view
  catalog_after :: catalog
  statements :: "statement list"

definition refresh_body :: "refresh_env \<Rightarrow> string \<Rightarrow> materialized_view \<Rightarrow> catalog \<Rightarrow> refresh_result" where
  "refresh_body env table_to_replace_name mv c =
     (case refresh_try env table_to_replace_name
             \<lparr>created = False, replaced = False, view = mv, cat = c, issued = []\<rparr> of
        (Some e, s) \<Rightarrow>
          if created s \<and> \<not> replaced s
          then
            let tmp = (database_name (target_table_id mv), table_to_replace_name);
                s' = issue (Drop_table tmp) s
            in (case execute_drop env Cleanup_drop tmp (cat s') of
                  Inl e' \<Rightarrow>
                    \<lparr>thrown = Some e', view_after = view s', catalog_after = cat s', statements = issued s'\<rparr>
                | Inr c' \<Rightarrow>
                    \<lparr>thrown = Some e, view_after = view s', catalog_after = c', statements = issued s'\<rparr>)
          else \<lparr>thrown = Some e, view_after = view s, catalog_after = cat s, statements = issued s\<rparr>
      | (None, s) \<Rightarrow>
          \<lparr>thrown = None, view_after = (view s)\<lparr>last_refresh_time := refresh_now env\<rparr>,
           catalog_after = cat s, statements = issued s\<rparr>)"

definition refresh :: "refresh_env \<Rightarrow> materialized_view \<Rightarrow> catalog \<Rightarrow> refresh_result" where
  "refresh env mv c = refresh_body env (''.tmp'' @ generateInnerTableName (view_id mv)) mv c"

text \<open>
  The error strikes after the temporary table has been created and before any table has
  been exchanged: the statements up to the CREATE succeed, and the INSERT throws \<open>e\<close>,
  or the INSERT succeeds and the RENAME throws \<open>e\<close> before its first exchange.
\<close>

definition fails_between :: "refresh_env \<Rightarrow> exn \<Rightarrow> bool" where
  "fails_between env e =
     (fault env Get_create_query = None \<and> fault env Execute_create = None
      \<and> (fault env Execute_insert = Some e
          \<or> (fault env Execute_insert = None \<and> fault env Execute_rename = Some e)))"

text \<open>The statements issued up to the error, and the rows of the temporary table then.\<close>

definition issued_before_error :: "refresh_env \<Rightarrow> table_ref \<Rightarrow> table_ref \<Rightarrow> statement list" where
  "issued_before_error env tmp target =
     (if fault env Execute_insert = None
      then [Create_as tmp target, Insert_select tmp,
            Rename_exchange [\<lparr>rename_from = tmp, rename_to = target\<rparr>, moved_from env]]
      else [Create_as tmp target, Insert_select tmp])"

definition rows_before_error :: "refresh_env \<Rightarrow> nat list" where
  "rows_before_error env = (if fault env Execute_insert = None then select_rows env else [])"

lemma refresh_try_failure:
  assumes "fails_between env e"
    and "c (database_name (target_table_id mv), table_name (target_table_id mv)) = Some t"
    and "c (database_name (target_table_id mv), tmp) = None"
  shows "refresh_try env tmp \<lparr>created = False, replaced = False, view = mv, cat = c, issued = []\<rparr>
     = (Some e,
        \<lparr>created = True, replaced = False, view = mv,
         cat = c((database_name (target_table_id mv), tmp)
                   \<mapsto> \<lparr>table_uuid = new_uuid env, table_rows = rows_before_error env\<rparr>),
         issued = issued_before_error env (database_name (target_table_id mv), tmp)
                    (database_name (target_table_id mv), table_name (target_table_id mv))\<rparr>)"
proof -
  let ?db = "database_name (target_table_id mv)"
  let ?target = "(?db, table_name (target_table_id mv))"
  let ?tmp = "(?db, tmp)"
  have cr: "execute_create env ?tmp ?target c
      = Inr (c(?tmp \<mapsto> \<lparr>table_uuid = new_uuid env, table_rows = []\<rparr>))"
    using assms by (simp add: execute_create_def fails_between_def)
  from assms(1) have "fault env Execute_insert = Some e
      \<or> (fault env Execute_insert = None \<and> fault env Execute_rename = Some e)"
    by (simp add: fails_between_def)
  then show ?thesis
  proof
    assume "fault env Execute_insert = Some e"
    then show ?thesis
      by (simp add: refresh_try_def cr execute_insert_def issue_def issued_before_error_def
          rows_before_error_def Let_def)
  next
    assume "fault env Execute_insert = None \<and> fault env Execute_rename = Some e"
    then show ?thesis
      by (simp add: refresh_try_def cr execute_insert_def execute_rename_def issue_def
          issued_before_error_def rows_before_error_def Let_def)
  qed
qed

lemma refresh_body_failure:
  assumes "fails_between env e"
    and "c (database_name (target_table_id mv), table_name (target_table_id mv)) = Some t"
    and "c (database_name (target_table_id mv), tmp) = None"
  shows "statements (refresh_body env tmp mv c)
       = issued_before_error env (database_name (target_table_id mv), tmp)
           (database_name (target_table_id mv), table_name (target_table_id mv))
         @ [Drop_table (database_name (target_table_id mv), tmp)]"
    and "view_after (refresh_body env tmp mv c) = mv"
    and "catalog_after (refresh_body env tmp mv c)
           (database_name (target_table_id mv), table_name (target_table_id mv)) = Some t"
    and "fault env Cleanup_drop = None \<Longrightarrow>
           thrown (refresh_body env tmp mv c) = Some e \<and> catalog_after (refresh_body env tmp mv c) = c"
    and "fault env Cleanup_drop = Some e' \<Longrightarrow>
           thrown (refresh_body env tmp mv c) = Some e'
         \<and> catalog_after (refresh_body env tmp mv c) (database_name (target_table_id mv), tmp)
             = Some \<lparr>table_uuid = new_uuid env, table_rows = rows_before_error env\<rparr>"
proof -
  have ne: "tmp \<noteq> table_name (target_table_id mv)" using assms(2,3) by auto
  note r = refresh_try_failure [OF assms]
  show "statements (refresh_body env tmp mv c)
       = issued_before_error env (database_name (target_table_id mv), tmp)
           (database_name (target_table_id mv), table_name (target_table_id mv))
         @ [Drop_table (database_name (target_table_id mv), tmp)]"
    by (simp add: refresh_body_def r execute_drop_def issue_def Let_def split: option.split)
  show "view_after (refresh_body env tmp mv c) = mv"
    by (simp add: refresh_body_def r execute_drop_def issue_def Let_def split: option.split)
  show "catalog_after (refresh_body env tmp mv c)
           (database_name (target_table_id mv), table_name (target_table_id mv)) = Some t"
    using assms(2) ne
    by (simp add: refresh_body_def r execute_drop_def issue_def Let_def split: option.split)
  show "fault env Cleanup_drop = None \<Longrightarrow>
           thrown (refresh_body env tmp mv c) = Some e \<and> catalog_after (refresh_body env tmp mv c) = c"
    using assms(3)
    by (simp add: refresh_body_def r execute_drop_def issue_def Let_def fun_upd_idem)
  show "fault env Cleanup_drop = Some e' \<Longrightarrow>
           thrown (refresh_body env tmp mv c) = Some e'
         \<and> catalog_after (refresh_body env tmp mv c) (database_name (target_table_id mv), tmp)
             = Some \<lparr>table_uuid = new_uuid env, table_rows = rows_before_error env\<rparr>"
    by (simp add: refresh_body_def r execute_drop_def issue_def Let_def)
qed

text \<open>
  Claim C3, as the code has it. The view's target exists and the temporary name is
  free, so that the CREATE succeeds. An error then strikes before any table has been
  exchanged. \<open>refresh\<close> has issued the CREATE and the INSERT of the temporary table (and
  the RENAME, when that is what throws) and issues the DROP of the temporary table as
  its last statement; the view, with its target id and its \<open>last_refresh_time\<close>, is as
  before, and the target table is untouched. When that DROP succeeds, the original
  error leaves \<open>refresh\<close> and the catalog is what it was before, with no temporary
  table. When that DROP throws, its exception leaves \<open>refresh\<close> in place of the original
  one and the temporary table remains.
\<close>

theorem refresh_failure_cleans_up:
  assumes "fails_between env e"
    and "c (database_name (target_table_id mv), table_name (target_table_id mv)) = Some t"
    and "c (database_name (target_table_id mv), ''.tmp'' @ generateInnerTableName (view_id mv)) = None"
  shows "statements (refresh env mv c)
       = issued_before_error env
           (database_name (target_table_id mv), ''.tmp'' @ generateInnerTableName (view_id mv))
           (database_name (target_table_id mv), table_name (target_table_id mv))
         @ [Drop_table (database_name (target_table_id mv), ''.tmp'' @ generateInnerTableName (view_id mv))]
    \<and> view_after (refresh env mv c) = mv
    \<and> catalog_after (refresh env mv c)
         (database_name (target_table_id mv), table_name (target_table_id mv)) = Some t
    \<and> (fault env Cleanup_drop = None \<longrightarrow>
         thrown (refresh env mv c) = Some e
       \<and> catalog_after (refresh env mv c) = c
       \<and> catalog_after (refresh env mv c)
           (database_name (target_table_id mv), ''.tmp'' @ generateInnerTableName (view_id mv)) = None)
    \<and> (\<forall>e'. fault env Cleanup_drop = Some e' \<longrightarrow>
         thrown (refresh env mv c) = Some e'
       \<and> catalog_after (refresh env mv c)
           (database_name (target_table_id mv), ''.tmp'' @ generateInnerTableName (view_id mv))
           = Some \<lparr>table_uuid = new_uuid env, table_rows = rows_before_error env\<rparr>)"
  unfolding refresh_def
  using refresh_body_failure [OF assms] assms(3) by auto

text \<open>
  An example: a view \<open>mv\<close> with the inner table \<open>.inner.mv\<close> of three rows, a SELECT
  that yields two rows, and a move that leaves empty names behind.
\<close>

definition example_view :: materialized_view where
  "example_view =
     \<lparr>view_id = \<lparr>database_name = ''db'', table_name = ''mv'', uuid = []\<rparr>,
      target_table_id = \<lparr>database_name = ''db'', table_name = ''.inner.mv'', uuid = ''u1''\<rparr>,
      has_inner_table = True, last_refresh_time = 10\<rparr>"

definition example_catalog :: catalog where
  "example_catalog = Map.empty((''db'', ''.inner.mv'') \<mapsto> \<lparr>table_uuid = ''u1'', table_rows = [1, 2, 3]\<rparr>)"

definition example_refresh_env :: "(refresh_step \<Rightarrow> exn option) \<Rightarrow> refresh_env" where
  "example_refresh_env f =
     \<lparr>refresh_now = 99, select_rows = [4, 5], new_uuid = ''u2'',
      moved_from = \<lparr>rename_from = ([], []), rename_to = ([], [])\<rparr>, fault = f\<rparr>"

lemmas refresh_defs =
  refresh_def refresh_body_def refresh_try_def execute_create_def execute_insert_def
  execute_rename_def exchange_tables_def get_table_def execute_drop_def issue_def
  generateInnerTableName_def hasUUID_def

lemmas example_refresh_defs =
  example_refresh_env_def example_view_def example_catalog_def

theorem refresh_failure_cleans_up_witness:
  "fails_between (example_refresh_env (\<lambda>s. if s = Execute_insert then Some (Foreign 1) else None)) (Foreign 1)
   \<and> example_catalog (database_name (target_table_id example_view), table_name (target_table_id example_view))
       = Some \<lparr>table_uuid = ''u1'', table_rows = [1, 2, 3]\<rparr>
   \<and> example_catalog (database_name (target_table_id example_view),
        ''.tmp'' @ generateInnerTableName (view_id example_view)) = None
   \<and> statements (refresh (example_refresh_env (\<lambda>s. if s = Execute_insert then Some (Foreign 1) else None))
        example_view example_catalog)
      = [Create_as (''db'', ''.tmp.inner.mv'') (''db'', ''.inner.mv''),
         Insert_select (''db'', ''.tmp.inner.mv''),
         Drop_table (''db'', ''.tmp.inner.mv'')]
   \<and> thrown (refresh (example_refresh_env (\<lambda>s. if s = Execute_insert then Some (Foreign 1) else None))
        example_view example_catalog) = Some (Foreign 1)
   \<and> view_after (refresh (example_refresh_env (\<lambda>s. if s = Execute_insert then Some (Foreign 1) else None))
        example_view example_catalog) = example_view
   \<and> catalog_after (refresh (example_refresh_env (\<lambda>s. if s = Execute_insert then Some (Foreign 1) else None))
        example_view example_catalog) = example_catalog"
proof -
  let ?env = "example_refresh_env (\<lambda>s. if s = Execute_insert then Some (Foreign 1) else None)"
  have a: "fails_between ?env (Foreign 1)"
    by (simp add: fails_between_def example_refresh_env_def)
  have b: "example_catalog (database_name (target_table_id example_view), table_name (target_table_id example_view))
       = Some \<lparr>table_uuid = ''u1'', table_rows = [1, 2, 3]\<rparr>"
    by (simp add: example_catalog_def example_view_def)
  have c: "example_catalog (database_name (target_table_id example_view),
        ''.tmp'' @ generateInnerTableName (view_id example_view)) = None"
    by (simp add: example_catalog_def example_view_def generateInnerTableName_def hasUUID_def)
  have d: "fault ?env Cleanup_drop = None" "fault ?env Execute_insert \<noteq> None"
    by (simp_all add: example_refresh_env_def)
  have names: "database_name (target_table_id example_view) = ''db''"
    "table_name (target_table_id example_view) = ''.inner.mv''"
    "''.tmp'' @ generateInnerTableName (view_id example_view) = ''.tmp.inner.mv''"
    by (simp_all add: example_view_def generateInnerTableName_def hasUUID_def)
  from refresh_failure_cleans_up [OF a b c] d
  have "statements (refresh ?env example_view example_catalog)
       = issued_before_error ?env
           (database_name (target_table_id example_view), ''.tmp'' @ generateInnerTableName (view_id example_view))
           (database_name (target_table_id example_view), table_name (target_table_id example_view))
         @ [Drop_table (database_name (target_table_id example_view),
                        ''.tmp'' @ generateInnerTableName (view_id example_view))]
    \<and> view_after (refresh ?env example_view example_catalog) = example_view
    \<and> thrown (refresh ?env example_view example_catalog) = Some (Foreign 1)
    \<and> catalog_after (refresh ?env example_view example_catalog) = example_catalog"
    by blast
  with d(2) have "statements (refresh ?env example_view example_catalog)
      = [Create_as (''db'', ''.tmp.inner.mv'') (''db'', ''.inner.mv''),
         Insert_select (''db'', ''.tmp.inner.mv''),
         Drop_table (''db'', ''.tmp.inner.mv'')]
    \<and> view_after (refresh ?env example_view example_catalog) = example_view
    \<and> thrown (refresh ?env example_view example_catalog) = Some (Foreign 1)
    \<and> catalog_after (refresh ?env example_view example_catalog) = example_catalog"
    unfolding names by (auto simp add: issued_before_error_def)
  with a b c show ?thesis by blast
qed

text \<open>
  Claim C3 as stated. The INSERT throws \<open>Foreign 1\<close> after the temporary table has been
  created, and the DROP in the handler throws \<open>Foreign 2\<close>: the error that leaves
  \<open>refresh\<close> is not the one that struck, and the temporary table has not been dropped.
\<close>

theorem refresh_failure_counterexample:
  "fails_between
      (example_refresh_env (\<lambda>s. if s = Execute_insert then Some (Foreign 1)
                                else if s = Cleanup_drop then Some (Foreign 2) else None))
      (Foreign 1)
   \<and> thrown (refresh
        (example_refresh_env (\<lambda>s. if s = Execute_insert then Some (Foreign 1)
                                  else if s = Cleanup_drop then Some (Foreign 2) else None))
        example_view example_catalog) = Some (Foreign 2)
   \<and> catalog_after (refresh
        (example_refresh_env (\<lambda>s. if s = Execute_insert then Some (Foreign 1)
                                  else if s = Cleanup_drop then Some (Foreign 2) else None))
        example_view example_catalog) (''db'', ''.tmp.inner.mv'')
      = Some \<lparr>table_uuid = ''u2'', table_rows = []\<rparr>"
  by (simp add: fails_between_def refresh_defs example_refresh_defs Let_def)

text \<open>
  The same view when no collaborator fails for a reason of its own. The first element
  of the RENAME exchanges the two tables and the second, with the names the move has
  left, throws: the handler drops the table under the temporary name, which by then
  is the old target, and the view keeps the old target id. Had the move left \<open>elem\<close> as
  it was, the second element would exchange the tables back.
\<close>

lemma refresh_without_fault:
  "thrown (refresh (example_refresh_env (\<lambda>s. None)) example_view example_catalog) = Some (Foreign 60)
   \<and> view_after (refresh (example_refresh_env (\<lambda>s. None)) example_view example_catalog) = example_view
   \<and> catalog_after (refresh (example_refresh_env (\<lambda>s. None)) example_view example_catalog)
        (''db'', ''.inner.mv'') = Some \<lparr>table_uuid = ''u2'', table_rows = [4, 5]\<rparr>
   \<and> catalog_after (refresh (example_refresh_env (\<lambda>s. None)) example_view example_catalog)
        (''db'', ''.tmp.inner.mv'') = None
   \<and> statements (refresh (example_refresh_env (\<lambda>s. None)) example_view example_catalog)
      = [Create_as (''db'', ''.tmp.inner.mv'') (''db'', ''.inner.mv''),
         Insert_select (''db'', ''.tmp.inner.mv''),
         Rename_exchange [\<lparr>rename_from = (''db'', ''.tmp.inner.mv''), rename_to = (''db'', ''.inner.mv'')\<rparr>,
                          \<lparr>rename_from = ([], []), rename_to = ([], [])\<rparr>],
         Drop_table (''db'', ''.tmp.inner.mv'')]"
  by (simp add: refresh_defs example_refresh_defs Let_def)

lemma refresh_element_kept_by_move:
  "thrown (refresh
      ((example_refresh_env (\<lambda>s. None))
         \<lparr>moved_from := \<lparr>rename_from = (''db'', ''.tmp.inner.mv''), rename_to = (''db'', ''.inner.mv'')\<rparr>\<rparr>)
      example_view example_catalog) = None
   \<and> catalog_after (refresh
      ((example_refresh_env (\<lambda>s. None))
         \<lparr>moved_from := \<lparr>rename_from = (''db'', ''.tmp.inner.mv''), rename_to = (''db'', ''.inner.mv'')\<rparr>\<rparr>)
      example_view example_catalog) (''db'', ''.inner.mv'')
      = Some \<lparr>table_uuid = ''u1'', table_rows = [1, 2, 3]\<rparr>"
  by (simp add: refresh_defs example_refresh_defs Let_def)

section \<open>Dictionary Structure Schema (dbms/src/Dictionaries/DictionaryStructure.cpp)\<close>

subsection \<open>The configuration\<close>

text \<open>
  A hierarchical configuration: every element has a text and an ordered list of child
  elements. The child names are the keys as \<open>keys()\<close> enumerates them, where a repeated
  element name carries its index (\<open>attribute\<close>, \<open>attribute[1]\<close>, ...). A path is the list
  of element names that the source joins with dots. The constructor's \<open>config_prefix\<close>
  is the root of the tree given to the model.
\<close>

datatype config = Node (node_text: string) (node_children: "(string \<times> config) list")

fun resolve :: "config \<Rightarrow> string list \<Rightarrow> config option" where
  "resolve n [] = Some n"
| "resolve n (k # ks) = (case map_of (node_children n) k of None \<Rightarrow> None | Some m \<Rightarrow> resolve m ks)"

definition has :: "config \<Rightarrow> string list \<Rightarrow> bool" where
  "has c p = (resolve c p \<noteq> None)"

definition getString :: "config \<Rightarrow> string list \<Rightarrow> exn + string" where
  "getString c p = (case resolve c p of None \<Rightarrow> Inl NotFoundException | Some n \<Rightarrow> Inr (node_text n))"

definition getString_default :: "config \<Rightarrow> string list \<Rightarrow> string \<Rightarrow> string" where
  "getString_default c p d = (case resolve c p of None \<Rightarrow> d | Some n \<Rightarrow> node_text n)"

definition keys :: "config \<Rightarrow> string list \<Rightarrow> (string \<times> config) list" where
  "keys c p = (case resolve c p of None \<Rightarrow> [] | Some n \<Rightarrow> node_children n)"

text \<open>
  The collaborators of the parser: the data type factory, which throws on a name it does
  not know; the boolean parser of the configuration library; the default value of a type
  and the parser of a value of a type, both giving the value in its textual form.
\<close>

record data_type =
  type_name :: string
  isValueRepresentedByInteger :: bool
  getSizeOfValueInMemory :: "nat option"

record dictionary_env =
  data_type_factory :: "string \<Rightarrow> exn + data_type"
  parse_bool :: "string \<Rightarrow> bool option"
  getDefault :: "data_type \<Rightarrow> string"
  deserializeAsTextEscaped :: "data_type \<Rightarrow> string \<Rightarrow> exn + string"

definition getBool_default :: "dictionary_env \<Rightarrow> config \<Rightarrow> string list \<Rightarrow> bool \<Rightarrow> exn + bool" where
  "getBool_default env c p d =
     (case resolve c p of
        None \<Rightarrow> Inr d
      | Some n \<Rightarrow> (case parse_bool env (node_text n) of None \<Rightarrow> Inl SyntaxException | Some b \<Rightarrow> Inr b))"

subsection \<open>Attribute types\<close>

datatype attribute_underlying_type =
    UInt8 | UInt16 | UInt32 | UInt64 | UInt128
  | Int8 | Int16 | Int32 | Int64
  | Float32 | Float64
  | Decimal32 | Decimal64 | Decimal128
  | String

definition starts_with :: "string \<Rightarrow> string \<Rightarrow> bool" where
  "starts_with s p = (take (length p) s = p)"

definition type_dictionary :: "(string \<times> attribute_underlying_type) list" where
  "type_dictionary =
     [(''UInt8'', UInt8), (''UInt16'', UInt16), (''UInt32'', UInt32), (''UInt64'', UInt64),
      (''UUID'', UInt128),
      (''Int8'', Int8), (''Int16'', Int16), (''Int32'', Int32), (''Int64'', Int64),
      (''Float32'', Float32), (''Float64'', Float64),
      (''String'', String),
      (''Date'', UInt16), (''DateTime'', UInt32)]"

definition getAttributeUnderlyingType :: "string \<Rightarrow> exn + attribute_underlying_type" where
  "getAttributeUnderlyingType t =
     (case map_of type_dictionary t of
        Some u \<Rightarrow> Inr u
      | None \<Rightarrow>
          if starts_with t ''Decimal'' \<and> starts_with (drop 7 t) ''32'' then Inr Decimal32
          else if starts_with t ''Decimal'' \<and> starts_with (drop 7 t) ''64'' then Inr Decimal64
          else if starts_with t ''Decimal'' \<and> starts_with (drop 7 t) ''128'' then Inr Decimal128
          else Inl UNKNOWN_TYPE)"

subsection \<open>The schema\<close>

record dictionary_attribute =
  attr_name :: string
  attr_underlying_type :: attribute_underlying_type
  attr_type :: data_type
  attr_expression :: string
  attr_null_value :: "string option"
  attr_hierarchical :: bool
  attr_injective :: bool
  attr_is_object_id :: bool

record dictionary_special_attribute =
  special_name :: string
  special_expression :: string

record dictionary_typed_special_attribute =
  typed_name :: string
  typed_expression :: string
  typed_type :: data_type

text \<open>The field \<open>id\<close> of the source is \<open>id_attribute\<close> here.\<close>

record dictionary_structure =
  id_attribute :: "dictionary_special_attribute option"
  key :: "dictionary_attribute list option"
  attributes :: "dictionary_attribute list"
  range_min :: "dictionary_typed_special_attribute option"
  range_max :: "dictionary_typed_special_attribute option"
  has_expressions :: bool

definition DictionarySpecialAttribute :: "config \<Rightarrow> string list \<Rightarrow> exn + dictionary_special_attribute" where
  "DictionarySpecialAttribute c p =
     (let name = getString_default c (p @ [''name'']) [];
          expression = getString_default c (p @ [''expression'']) []
      in if name = [] \<and> expression \<noteq> [] then Inl BAD_ARGUMENTS
         else Inr \<lparr>special_name = name, special_expression = expression\<rparr>)"

definition makeDictionaryTypedSpecialAttribute ::
  "dictionary_env \<Rightarrow> config \<Rightarrow> string list \<Rightarrow> string \<Rightarrow> exn + dictionary_typed_special_attribute" where
  "makeDictionaryTypedSpecialAttribute env c p default_type =
     (let name = getString_default c (p @ [''name'']) [];
          expression = getString_default c (p @ [''expression'']) []
      in if name = [] \<and> expression \<noteq> [] then Inl BAD_ARGUMENTS
         else
           case data_type_factory env (getString_default c (p @ [''type'']) default_type) of
             Inl e \<Rightarrow> Inl e
           | Inr t \<Rightarrow> Inr \<lparr>typed_name = name, typed_expression = expression, typed_type = t\<rparr>)"

definition valid_keys :: "string list" where
  "valid_keys = [''name'', ''type'', ''expression'', ''null_value'', ''hierarchical'', ''injective'', ''is_object_id'']"

fun checkAttributeKeys :: "string list \<Rightarrow> exn + unit" where
  "checkAttributeKeys [] = Inr ()"
| "checkAttributeKeys (k # ks) = (if k \<notin> set valid_keys then Inl BAD_ARGUMENTS else checkAttributeKeys ks)"

text \<open>
  The body of the loop of \<open>getAttributes\<close> for one attribute element, up to the test of
  the name. A null \<open>Field\<close> is \<open>None\<close>.
\<close>

definition read_null_value :: "dictionary_env \<Rightarrow> bool \<Rightarrow> config \<Rightarrow> data_type \<Rightarrow> exn + string option" where
  "read_null_value env allow_null_values elem t =
     (if \<not> allow_null_values then Inr None
      else
        case getString elem [''null_value''] of
          Inl e \<Rightarrow> Inl e
        | Inr null_value_string \<Rightarrow>
            if null_value_string = [] then Inr (Some (getDefault env t))
            else (case deserializeAsTextEscaped env t null_value_string of
                    Inl e \<Rightarrow> Inl e
                  | Inr v \<Rightarrow> Inr (Some v)))"

definition read_flags :: "dictionary_env \<Rightarrow> config \<Rightarrow> exn + bool \<times> bool \<times> bool" where
  "read_flags env elem =
     (case getBool_default env elem [''hierarchical''] False of
        Inl e \<Rightarrow> Inl e
      | Inr hierarchical \<Rightarrow>
          (case getBool_default env elem [''injective''] False of
             Inl e \<Rightarrow> Inl e
           | Inr injective \<Rightarrow>
               (case getBool_default env elem [''is_object_id''] False of
                  Inl e \<Rightarrow> Inl e
                | Inr is_object_id \<Rightarrow> Inr (hierarchical, injective, is_object_id))))"

definition read_attribute :: "dictionary_env \<Rightarrow> bool \<Rightarrow> config \<Rightarrow> exn + dictionary_attribute" where
  "read_attribute env allow_null_values elem =
     (case checkAttributeKeys (map fst (node_children elem)) of
        Inl e \<Rightarrow> Inl e
      | Inr u \<Rightarrow>
     (case getString elem [''name''] of
        Inl e \<Rightarrow> Inl e
      | Inr name \<Rightarrow>
     (case getString elem [''type''] of
        Inl e \<Rightarrow> Inl e
      | Inr type_string \<Rightarrow>
     (case data_type_factory env type_string of
        Inl e \<Rightarrow> Inl e
      | Inr t \<Rightarrow>
     (case getAttributeUnderlyingType type_string of
        Inl e \<Rightarrow> Inl e
      | Inr underlying_type \<Rightarrow>
     (case read_null_value env allow_null_values elem t of
        Inl e \<Rightarrow> Inl e
      | Inr null_value \<Rightarrow>
     (case read_flags env elem of
        Inl e \<Rightarrow> Inl e
      | Inr (hierarchical, injective, is_object_id) \<Rightarrow>
          if name = [] then Inl BAD_ARGUMENTS
          else Inr \<lparr>attr_name = name, attr_underlying_type = underlying_type, attr_type = t,
                    attr_expression = getString_default elem [''expression''] [],
                    attr_null_value = null_value, attr_hierarchical = hierarchical,
                    attr_injective = injective, attr_is_object_id = is_object_id\<rparr>)))))))"

text \<open>
  The loop of \<open>getAttributes\<close> over the child elements, with the local \<open>has_hierarchy\<close>,
  the member \<open>has_expressions\<close> and the attributes collected so far.
\<close>

fun attributes_loop ::
  "dictionary_env \<Rightarrow> bool \<Rightarrow> bool \<Rightarrow> (string \<times> config) list \<Rightarrow> bool \<Rightarrow> bool \<Rightarrow> dictionary_attribute list
     \<Rightarrow> exn + dictionary_attribute list \<times> bool" where
  "attributes_loop env hierarchy_allowed allow_null_values [] has_hierarchy has_expr res = Inr (res, has_expr)"
| "attributes_loop env hierarchy_allowed allow_null_values ((config_elem, elem) # rest) has_hierarchy has_expr res =
     (if \<not> starts_with config_elem ''attribute''
      then attributes_loop env hierarchy_allowed allow_null_values rest has_hierarchy has_expr res
      else
        case read_attribute env allow_null_values elem of
          Inl e \<Rightarrow> Inl e
        | Inr a \<Rightarrow>
            if has_hierarchy \<and> \<not> hierarchy_allowed then Inl BAD_ARGUMENTS
            else if has_hierarchy \<and> attr_hierarchical a then Inl BAD_ARGUMENTS
            else attributes_loop env hierarchy_allowed allow_null_values rest
                   (has_hierarchy \<or> attr_hierarchical a)
                   (has_expr \<or> attr_expression a \<noteq> [])
                   (res @ [a]))"

definition getAttributes ::
  "dictionary_env \<Rightarrow> config \<Rightarrow> string list \<Rightarrow> bool \<Rightarrow> bool \<Rightarrow> bool \<Rightarrow> exn + dictionary_attribute list \<times> bool" where
  "getAttributes env c p hierarchy_allowed allow_null_values has_expr =
     attributes_loop env hierarchy_allowed allow_null_values (keys c p) False has_expr []"

text \<open>The first part of the constructor: \<open>id\<close> or \<open>key\<close>.\<close>

definition read_id_or_key ::
  "dictionary_env \<Rightarrow> config
     \<Rightarrow> exn + dictionary_special_attribute option \<times> dictionary_attribute list option \<times> bool" where
  "read_id_or_key env c =
     (if has c [''key''] \<and> has c [''id''] then Inl BAD_ARGUMENTS
      else if has c [''id'']
      then (case DictionarySpecialAttribute c [''id''] of
              Inl e \<Rightarrow> Inl e
            | Inr i \<Rightarrow> Inr (Some i, None, False))
      else if has c [''key'']
      then (case getAttributes env c [''key''] False False False of
              Inl e \<Rightarrow> Inl e
            | Inr (k, hx) \<Rightarrow> if k = [] then Inl BAD_ARGUMENTS else Inr (None, Some k, hx))
      else Inl BAD_ARGUMENTS)"

text \<open>The block under \<open>if (id)\<close>: the name of the id and the range attributes.\<close>

definition read_optional_typed ::
  "dictionary_env \<Rightarrow> config \<Rightarrow> string \<Rightarrow> exn + dictionary_typed_special_attribute option" where
  "read_optional_typed env c name =
     (if has c [name]
      then (case makeDictionaryTypedSpecialAttribute env c [name] ''Date'' of
              Inl e \<Rightarrow> Inl e
            | Inr a \<Rightarrow> Inr (Some a))
      else Inr None)"

definition read_ranges ::
  "dictionary_env \<Rightarrow> config \<Rightarrow> dictionary_special_attribute \<Rightarrow> bool
     \<Rightarrow> exn + dictionary_typed_special_attribute option \<times> dictionary_typed_special_attribute option \<times> bool" where
  "read_ranges env c i has_expr =
     (if special_name i = [] then Inl BAD_ARGUMENTS
      else
        case read_optional_typed env c ''range_min'' of
          Inl e \<Rightarrow> Inl e
        | Inr rmin \<Rightarrow>
            (case read_optional_typed env c ''range_max'' of
               Inl e \<Rightarrow> Inl e
             | Inr rmax \<Rightarrow>
                 if (rmin \<noteq> None) \<noteq> (rmax \<noteq> None) then Inl BAD_ARGUMENTS
                 else if (case (rmin, rmax) of (Some a, Some b) \<Rightarrow> typed_type a \<noteq> typed_type b | _ \<Rightarrow> False)
                 then Inl BAD_ARGUMENTS
                 else if (case rmin of Some a \<Rightarrow> \<not> isValueRepresentedByInteger (typed_type a) | None \<Rightarrow> False)
                 then Inl BAD_ARGUMENTS
                 else Inr (rmin, rmax,
                           has_expr \<or> special_expression i \<noteq> []
                           \<or> (case rmin of Some a \<Rightarrow> typed_expression a \<noteq> [] | None \<Rightarrow> False)
                           \<or> (case rmax of Some b \<Rightarrow> typed_expression b \<noteq> [] | None \<Rightarrow> False))))"

definition DictionaryStructure :: "dictionary_env \<Rightarrow> config \<Rightarrow> exn + dictionary_structure" where
  "DictionaryStructure env c =
     (case read_id_or_key env c of
        Inl e \<Rightarrow> Inl e
      | Inr (i, k, hx1) \<Rightarrow>
          (case (case i of None \<Rightarrow> Inr (None, None, hx1) | Some ia \<Rightarrow> read_ranges env c ia hx1) of
             Inl e \<Rightarrow> Inl e
           | Inr (rmin, rmax, hx2) \<Rightarrow>
               (case getAttributes env c [] True True hx2 of
                  Inl e \<Rightarrow> Inl e
                | Inr (attrs, hx3) \<Rightarrow>
                    if attrs = [] then Inl BAD_ARGUMENTS
                    else Inr \<lparr>id_attribute = i, key = k, attributes = attrs,
                              range_min = rmin, range_max = rmax, has_expressions = hx3\<rparr>)))"

subsection \<open>Key types and key size\<close>

text \<open>
  \<open>key\<close> is a \<open>std::optional\<close>. \<open>operator*\<close> and \<open>operator->\<close> on an empty optional are
  undefined behaviour, which is an outcome of its own here.
\<close>

datatype 'a outcome = Undefined_dereference | Throws exn | Returns 'a

fun concat_names :: "string list \<Rightarrow> string" where
  "concat_names [] = []"
| "concat_names [n] = n"
| "concat_names (n # ns) = n @ '', '' @ concat_names ns"

definition getKeyDescription :: "dictionary_structure \<Rightarrow> string outcome" where
  "getKeyDescription ds =
     (if id_attribute ds \<noteq> None then Returns ''UInt64''
      else
        case key ds of
          None \<Rightarrow> Undefined_dereference
        | Some k \<Rightarrow> Returns (''('' @ concat_names (map (\<lambda>a. type_name (attr_type a)) k) @ '')''))"

fun compare_key_types :: "dictionary_attribute list \<Rightarrow> data_type list \<Rightarrow> unit outcome" where
  "compare_key_types (a # k) (t # key_types) =
     (if type_name (attr_type a) \<noteq> type_name t then Throws TYPE_MISMATCH
      else compare_key_types k key_types)"
| "compare_key_types k key_types = Returns ()"

definition validateKeyTypes :: "dictionary_structure \<Rightarrow> data_type list \<Rightarrow> unit outcome" where
  "validateKeyTypes ds key_types =
     (case key ds of
        None \<Rightarrow> Undefined_dereference
      | Some k \<Rightarrow>
          if length key_types \<noteq> length k
          then (case getKeyDescription ds of
                  Undefined_dereference \<Rightarrow> Undefined_dereference
                | Throws e \<Rightarrow> Throws e
                | Returns d \<Rightarrow> Throws TYPE_MISMATCH)
          else compare_key_types k key_types)"

definition isKeySizeFixed :: "dictionary_structure \<Rightarrow> bool" where
  "isKeySizeFixed ds =
     (case key ds of
        None \<Rightarrow> True
      | Some k \<Rightarrow> \<not> (\<exists>a \<in> set k. attr_underlying_type a = String))"

text \<open>
  \<open>getSizeOfValueInMemory\<close> throws for a type whose values have no fixed size; the sum is
  a \<open>size_t\<close>.
\<close>

fun accumulate_sizes :: "dictionary_attribute list \<Rightarrow> nat \<Rightarrow> nat outcome" where
  "accumulate_sizes [] running_size = Returns running_size"
| "accumulate_sizes (a # k) running_size =
     (case getSizeOfValueInMemory (attr_type a) of
        None \<Rightarrow> Throws LOGICAL_ERROR
      | Some n \<Rightarrow> accumulate_sizes k ((running_size + n) mod 2 ^ 64))"

definition getKeySize :: "dictionary_structure \<Rightarrow> nat outcome" where
  "getKeySize ds =
     (case key ds of
        None \<Rightarrow> Undefined_dereference
      | Some k \<Rightarrow> accumulate_sizes k 0)"

subsection \<open>Configurations that the constructor rejects\<close>

text \<open>
  The attribute sections under a path are the child elements whose name starts with
  \<open>attribute\<close>; they are the elements that \<open>getAttributes\<close> reads.
\<close>

definition attribute_sections :: "config \<Rightarrow> string list \<Rightarrow> config list" where
  "attribute_sections c p = map snd (filter (\<lambda>(k, n). starts_with k ''attribute'') (keys c p))"

definition unknown_key :: "config \<Rightarrow> bool" where
  "unknown_key elem = (\<exists>k \<in> set (map fst (node_children elem)). k \<notin> set valid_keys)"

definition unknown_type :: "dictionary_env \<Rightarrow> config \<Rightarrow> bool" where
  "unknown_type env elem =
     (case getString elem [''type''] of
        Inl e \<Rightarrow> False
      | Inr ts \<Rightarrow> isl (getAttributeUnderlyingType ts) \<or> isl (data_type_factory env ts))"

definition empty_name :: "config \<Rightarrow> bool" where
  "empty_name elem = (getString elem [''name''] = Inr [])"

definition declares_hierarchical :: "dictionary_env \<Rightarrow> config \<Rightarrow> bool" where
  "declares_hierarchical env elem = (getBool_default env elem [''hierarchical''] False = Inr True)"

text \<open>The type that the constructor resolves for \<open>range_min\<close> or \<open>range_max\<close>.\<close>

definition range_type :: "dictionary_env \<Rightarrow> config \<Rightarrow> string \<Rightarrow> exn + data_type" where
  "range_type env c name = data_type_factory env (getString_default c [name, ''type''] ''Date'')"

lemma checkAttributeKeys_Inr: "checkAttributeKeys ks = Inr u \<Longrightarrow> set ks \<subseteq> set valid_keys"
  by (induction ks) (auto split: if_splits)

lemma read_attribute_Inr:
  assumes "read_attribute env a elem = Inr at"
  shows "\<not> unknown_key elem" and "\<not> unknown_type env elem" and "\<not> empty_name elem"
    and "attr_hierarchical at = declares_hierarchical env elem"
proof -
  from assms obtain u name ts t ut nv fl where
    k: "checkAttributeKeys (map fst (node_children elem)) = Inr u"
    and n: "getString elem [''name''] = Inr name"
    and ty: "getString elem [''type''] = Inr ts"
    and f: "data_type_factory env ts = Inr t"
    and g: "getAttributeUnderlyingType ts = Inr ut"
    and fl: "read_flags env elem = Inr fl"
    and ne: "name \<noteq> []"
    and h: "attr_hierarchical at = fst fl"
    by (auto simp add: read_attribute_def split: sum.splits if_splits prod.splits)
  from checkAttributeKeys_Inr [OF k] show "\<not> unknown_key elem"
    by (auto simp add: unknown_key_def)
  from ty f g show "\<not> unknown_type env elem"
    by (simp add: unknown_type_def)
  from n ne show "\<not> empty_name elem"
    by (simp add: empty_name_def)
  from fl h show "attr_hierarchical at = declares_hierarchical env elem"
    by (auto simp add: read_flags_def declares_hierarchical_def split: sum.splits)
qed

lemma attributes_loop_Inr:
  assumes "attributes_loop env h a xs hh hx res = Inr (r, hx')"
  shows "(\<forall>elem \<in> set (map snd (filter (\<lambda>(k, n). starts_with k ''attribute'') xs)).
            \<not> unknown_key elem \<and> \<not> unknown_type env elem \<and> \<not> empty_name elem)
     \<and> length r = length res + length (filter (\<lambda>(k, n). starts_with k ''attribute'') xs)
     \<and> (if hh then 1 else 0)
         + length (filter (declares_hierarchical env) (map snd (filter (\<lambda>(k, n). starts_with k ''attribute'') xs)))
         \<le> (1::nat)"
  using assms
proof (induction xs arbitrary: hh hx res)
  case Nil
  then show ?case by simp
next
  case (Cons p xs)
  obtain config_elem elem where p: "p = (config_elem, elem)" by (cases p)
  show ?case
  proof (cases "starts_with config_elem ''attribute''")
    case False
    with Cons.prems p have "attributes_loop env h a xs hh hx res = Inr (r, hx')" by simp
    from Cons.IH [OF this] False p show ?thesis by simp
  next
    case True
    with Cons.prems p obtain at where
      ra: "read_attribute env a elem = Inr at"
      and nh: "\<not> (hh \<and> attr_hierarchical at)"
      and rest: "attributes_loop env h a xs (hh \<or> attr_hierarchical at)
                   (hx \<or> attr_expression at \<noteq> []) (res @ [at]) = Inr (r, hx')"
      by (auto split: sum.splits if_splits)
    note ok = read_attribute_Inr [OF ra]
    from Cons.IH [OF rest] True p ok nh show ?thesis
      by (auto split: if_splits)
  qed
qed

lemma getAttributes_Inr:
  assumes "getAttributes env c p h a hx = Inr (r, hx')"
  shows "\<forall>elem \<in> set (attribute_sections c p).
            \<not> unknown_key elem \<and> \<not> unknown_type env elem \<and> \<not> empty_name elem"
    and "length r = length (attribute_sections c p)"
    and "length (filter (declares_hierarchical env) (attribute_sections c p)) \<le> 1"
  using attributes_loop_Inr [OF assms [unfolded getAttributes_def]]
  by (simp_all add: attribute_sections_def)

lemma read_optional_typed_Inr:
  assumes "read_optional_typed env c name = Inr r"
  shows "(r \<noteq> None) = has c [name]"
    and "\<And>x. r = Some x \<Longrightarrow> range_type env c name = Inr (typed_type x)"
  using assms
  by (auto simp add: read_optional_typed_def makeDictionaryTypedSpecialAttribute_def range_type_def Let_def
      split: if_splits sum.splits)

lemma read_ranges_Inr:
  assumes "read_ranges env c i hx = Inr (rmin, rmax, hx')"
  shows "has c [''range_min''] = has c [''range_max'']"
    and "has c [''range_min''] \<Longrightarrow> range_type env c ''range_min'' = range_type env c ''range_max''"
proof -
  from assms have all: "read_optional_typed env c ''range_min'' = Inr rmin
      \<and> read_optional_typed env c ''range_max'' = Inr rmax
      \<and> (rmin \<noteq> None) = (rmax \<noteq> None)
      \<and> (\<forall>x y. rmin = Some x \<longrightarrow> rmax = Some y \<longrightarrow> typed_type x = typed_type y)"
    by (auto simp add: read_ranges_def split: if_splits sum.splits)
  then have a: "read_optional_typed env c ''range_min'' = Inr rmin"
    and b: "read_optional_typed env c ''range_max'' = Inr rmax"
    and same: "(rmin \<noteq> None) = (rmax \<noteq> None)"
    and ty: "\<And>x y. rmin = Some x \<Longrightarrow> rmax = Some y \<Longrightarrow> typed_type x = typed_type y"
    by blast+
  from same read_optional_typed_Inr(1) [OF a] read_optional_typed_Inr(1) [OF b]
  show hs: "has c [''range_min''] = has c [''range_max'']" by simp
  assume "has c [''range_min'']"
  with hs read_optional_typed_Inr(1) [OF a] read_optional_typed_Inr(1) [OF b]
  obtain x y where xy: "rmin = Some x" "rmax = Some y" by auto
  from read_optional_typed_Inr(2) [OF a xy(1)] read_optional_typed_Inr(2) [OF b xy(2)] ty [OF xy]
  show "range_type env c ''range_min'' = range_type env c ''range_max''" by simp
qed

lemma DictionaryStructure_Inr:
  assumes "DictionaryStructure env c = Inr ds"
  shows "has c [''id''] \<noteq> has c [''key'']"
    and "\<exists>hx attrs hx'. getAttributes env c [] True True hx = Inr (attrs, hx') \<and> attrs \<noteq> []"
    and "has c [''key''] \<Longrightarrow> \<exists>k hx'. getAttributes env c [''key''] False False False = Inr (k, hx')"
    and "has c [''id''] \<Longrightarrow> has c [''range_min''] = has c [''range_max'']"
    and "has c [''id''] \<Longrightarrow> has c [''range_min''] \<Longrightarrow> range_type env c ''range_min'' = range_type env c ''range_max''"
    and "(key ds = None) = has c [''id'']"
proof -
  from assms obtain i k hx1 rmin rmax hx2 attrs hx3 where
    ik: "read_id_or_key env c = Inr (i, k, hx1)"
    and rg: "(case i of None \<Rightarrow> Inr (None, None, hx1) | Some ia \<Rightarrow> read_ranges env c ia hx1) = Inr (rmin, rmax, hx2)"
    and at: "getAttributes env c [] True True hx2 = Inr (attrs, hx3)"
    and ne: "attrs \<noteq> []"
    and ds: "ds = \<lparr>id_attribute = i, key = k, attributes = attrs,
                    range_min = rmin, range_max = rmax, has_expressions = hx3\<rparr>"
    by (auto simp add: DictionaryStructure_def split: sum.splits if_splits)
  from ik show x: "has c [''id''] \<noteq> has c [''key'']"
    by (auto simp add: read_id_or_key_def split: if_splits)
  from at ne show "\<exists>hx attrs hx'. getAttributes env c [] True True hx = Inr (attrs, hx') \<and> attrs \<noteq> []"
    by blast
  from ik have idk: "(i \<noteq> None) = has c [''id'']" "(k = None) = has c [''id'']"
    by (auto simp add: read_id_or_key_def split: if_splits sum.splits)
  from idk(2) ds show "(key ds = None) = has c [''id'']" by simp
  {
    assume "has c [''key'']"
    with ik show "\<exists>k hx'. getAttributes env c [''key''] False False False = Inr (k, hx')"
      by (auto simp add: read_id_or_key_def split: if_splits sum.splits)
  }
  {
    assume "has c [''id'']"
    with idk(1) obtain ia where "i = Some ia" by auto
    with rg have rr: "read_ranges env c ia hx1 = Inr (rmin, rmax, hx2)" by simp
    from read_ranges_Inr(1) [OF rr] show "has c [''range_min''] = has c [''range_max'']" .
    assume "has c [''range_min'']"
    from read_ranges_Inr(2) [OF rr this]
    show "range_type env c ''range_min'' = range_type env c ''range_max''" .
  }
qed

lemma keys_unresolved: "\<not> has c p \<Longrightarrow> attribute_sections c p = []"
  by (simp add: attribute_sections_def keys_def has_def)

text \<open>
  Claim C7, as the code has it. The constructor throws on every configuration that has
  both \<open>id\<close> and \<open>key\<close>, or neither; that has no attribute section; in which an
  attribute section read by the parser (under the structure or under \<open>key\<close>) has an
  unknown type, an unknown key or an empty name; that has more than one hierarchical
  attribute in one attribute list; and, when it is given by \<open>id\<close>, that has only one
  of \<open>range_min\<close> and \<open>range_max\<close> or has them with different types.
\<close>

theorem DictionaryStructure_rejects:
  assumes "(has c [''id''] \<and> has c [''key''])
    \<or> (\<not> has c [''id''] \<and> \<not> has c [''key''])
    \<or> attribute_sections c [] = []
    \<or> (\<exists>elem \<in> set (attribute_sections c [''key''] @ attribute_sections c []).
          unknown_type env elem \<or> unknown_key elem \<or> empty_name elem)
    \<or> (has c [''id''] \<and>
          (has c [''range_min''] \<noteq> has c [''range_max'']
           \<or> (has c [''range_min''] \<and> has c [''range_max'']
               \<and> range_type env c ''range_min'' \<noteq> range_type env c ''range_max'')))
    \<or> 1 < length (filter (declares_hierarchical env) (attribute_sections c []))
    \<or> 1 < length (filter (declares_hierarchical env) (attribute_sections c [''key'']))"
  shows "\<exists>e. DictionaryStructure env c = Inl e"
proof (cases "DictionaryStructure env c")
  case (Inl e)
  then show ?thesis by blast
next
  case (Inr ds)
  note inv = DictionaryStructure_Inr [OF Inr]
  from inv(2) obtain hx attrs hx' where
    main: "getAttributes env c [] True True hx = Inr (attrs, hx')" and ne: "attrs \<noteq> []"
    by blast
  note m = getAttributes_Inr [OF main]
  have keysec: "(\<forall>elem \<in> set (attribute_sections c [''key'']).
            \<not> unknown_key elem \<and> \<not> unknown_type env elem \<and> \<not> empty_name elem)
      \<and> length (filter (declares_hierarchical env) (attribute_sections c [''key''])) \<le> 1"
  proof (cases "has c [''key'']")
    case True
    from inv(3) [OF True] obtain k hk where
      kk: "getAttributes env c [''key''] False False False = Inr (k, hk)" by blast
    from getAttributes_Inr(1) [OF kk] getAttributes_Inr(3) [OF kk] show ?thesis by simp
  next
    case False
    then show ?thesis by (simp add: keys_unresolved)
  qed
  from ne m(2) have "attribute_sections c [] \<noteq> []" by auto
  with assms inv(1) inv(4) inv(5) m(1) m(3) keysec have False
    by auto
  then show ?thesis ..
qed

text \<open>Example collaborators and configurations.\<close>

definition example_factory :: "string \<Rightarrow> exn + data_type" where
  "example_factory t =
     (if t = ''UInt64'' then Inr \<lparr>type_name = t, isValueRepresentedByInteger = True, getSizeOfValueInMemory = Some 8\<rparr>
      else if t = ''Date'' then Inr \<lparr>type_name = t, isValueRepresentedByInteger = True, getSizeOfValueInMemory = Some 2\<rparr>
      else if t = ''DateTime'' then Inr \<lparr>type_name = t, isValueRepresentedByInteger = True, getSizeOfValueInMemory = Some 4\<rparr>
      else if t = ''String'' then Inr \<lparr>type_name = t, isValueRepresentedByInteger = False, getSizeOfValueInMemory = None\<rparr>
      else Inl UNKNOWN_TYPE)"

definition example_dictionary_env :: dictionary_env where
  "example_dictionary_env =
     \<lparr>data_type_factory = example_factory,
      parse_bool = (\<lambda>s. if s = ''true'' then Some True else if s = ''false'' then Some False else None),
      getDefault = (\<lambda>t. []),
      deserializeAsTextEscaped = (\<lambda>t s. Inr s)\<rparr>"

definition leaf :: "string \<Rightarrow> string \<Rightarrow> string \<times> config" where
  "leaf k v = (k, Node v [])"

definition example_attribute :: "string \<Rightarrow> string \<Rightarrow> string \<Rightarrow> bool \<Rightarrow> string \<times> config" where
  "example_attribute elem name t hier =
     (elem, Node [] [leaf ''name'' name, leaf ''type'' t, leaf ''null_value'' ''0'',
                     leaf ''hierarchical'' (if hier then ''true'' else ''false'')])"

definition example_key :: "string \<times> config" where
  "example_key = (''key'', Node [] [(''attribute'', Node [] [leaf ''name'' ''k'', leaf ''type'' ''UInt64''])])"

definition example_range :: "string \<Rightarrow> string \<Rightarrow> string \<times> config" where
  "example_range elem t = (elem, Node [] [leaf ''name'' elem, leaf ''type'' t])"

lemmas example_config_defs =
  example_factory_def example_dictionary_env_def leaf_def example_attribute_def example_key_def
  example_range_def

lemmas config_access_defs =
  has_def keys_def getString_def getString_default_def getBool_default_def attribute_sections_def
  starts_with_def

text \<open>
  Three rejected configurations: \<open>id\<close> with \<open>key\<close>; \<open>id\<close> with a \<open>range_min\<close> of type
  \<open>Date\<close> and a \<open>range_max\<close> of type \<open>DateTime\<close>; two hierarchical attributes.
\<close>

theorem DictionaryStructure_rejects_witness:
  "(\<exists>e. DictionaryStructure example_dictionary_env
      (Node [] [(''id'', Node [] [leaf ''name'' ''id'']), example_key,
                example_attribute ''attribute'' ''a'' ''UInt64'' False]) = Inl e)
   \<and> (\<exists>e. DictionaryStructure example_dictionary_env
      (Node [] [(''id'', Node [] [leaf ''name'' ''id'']),
                example_range ''range_min'' ''Date'', example_range ''range_max'' ''DateTime'',
                example_attribute ''attribute'' ''a'' ''UInt64'' False]) = Inl e)
   \<and> (\<exists>e. DictionaryStructure example_dictionary_env
      (Node [] [(''id'', Node [] [leaf ''name'' ''id'']),
                example_attribute ''attribute'' ''a'' ''UInt64'' True,
                example_attribute ''attribute[1]'' ''b'' ''UInt64'' True]) = Inl e)"
proof (intro conjI)
  let ?c1 = "Node [] [(''id'', Node [] [leaf ''name'' ''id'']), example_key,
                example_attribute ''attribute'' ''a'' ''UInt64'' False]"
  have "has ?c1 [''id''] \<and> has ?c1 [''key'']"
    by (simp add: config_access_defs example_config_defs)
  then show "\<exists>e. DictionaryStructure example_dictionary_env ?c1 = Inl e"
    by (intro DictionaryStructure_rejects) blast
next
  let ?c2 = "Node [] [(''id'', Node [] [leaf ''name'' ''id'']),
                example_range ''range_min'' ''Date'', example_range ''range_max'' ''DateTime'',
                example_attribute ''attribute'' ''a'' ''UInt64'' False]"
  have "has ?c2 [''id''] \<and> has ?c2 [''range_min''] \<and> has ?c2 [''range_max'']
      \<and> range_type example_dictionary_env ?c2 ''range_min'' \<noteq> range_type example_dictionary_env ?c2 ''range_max''"
    by (simp add: config_access_defs example_config_defs range_type_def)
  then show "\<exists>e. DictionaryStructure example_dictionary_env ?c2 = Inl e"
    by (intro DictionaryStructure_rejects) blast
next
  let ?c3 = "Node [] [(''id'', Node [] [leaf ''name'' ''id'']),
                example_attribute ''attribute'' ''a'' ''UInt64'' True,
                example_attribute ''attribute[1]'' ''b'' ''UInt64'' True]"
  have "1 < length (filter (declares_hierarchical example_dictionary_env) (attribute_sections ?c3 []))"
    by (simp add: config_access_defs example_config_defs declares_hierarchical_def)
  then show "\<exists>e. DictionaryStructure example_dictionary_env ?c3 = Inl e"
    by (intro DictionaryStructure_rejects) blast
qed

text \<open>
  Claim C7 as stated. A configuration given by \<open>key\<close> that has a \<open>range_min\<close> and no
  \<open>range_max\<close> is accepted, and so is one whose \<open>range_min\<close> is a \<open>Date\<close> and whose
  \<open>range_max\<close> is a \<open>DateTime\<close>: the constructor reads the range attributes only under
  \<open>if (id)\<close>.
\<close>

theorem DictionaryStructure_range_counterexample:
  "DictionaryStructure example_dictionary_env
      (Node [] [example_key, example_range ''range_min'' ''Date'',
                example_attribute ''attribute'' ''a'' ''UInt64'' False])
     = Inr \<lparr>id_attribute = None,
            key = Some [\<lparr>attr_name = ''k'', attr_underlying_type = UInt64,
                         attr_type = \<lparr>type_name = ''UInt64'', isValueRepresentedByInteger = True,
                                      getSizeOfValueInMemory = Some 8\<rparr>,
                         attr_expression = [], attr_null_value = None, attr_hierarchical = False,
                         attr_injective = False, attr_is_object_id = False\<rparr>],
            attributes = [\<lparr>attr_name = ''a'', attr_underlying_type = UInt64,
                           attr_type = \<lparr>type_name = ''UInt64'', isValueRepresentedByInteger = True,
                                        getSizeOfValueInMemory = Some 8\<rparr>,
                           attr_expression = [], attr_null_value = Some ''0'', attr_hierarchical = False,
                           attr_injective = False, attr_is_object_id = False\<rparr>],
            range_min = None, range_max = None, has_expressions = False\<rparr>
   \<and> \<not> isl (DictionaryStructure example_dictionary_env
      (Node [] [example_key, example_range ''range_min'' ''Date'', example_range ''range_max'' ''DateTime'',
                example_attribute ''attribute'' ''a'' ''UInt64'' False]))"
  by (simp add: DictionaryStructure_def read_id_or_key_def getAttributes_def read_attribute_def
      read_null_value_def read_flags_def getAttributeUnderlyingType_def type_dictionary_def
      valid_keys_def config_access_defs example_config_defs)

text \<open>
  One hierarchical attribute under \<open>key\<close> and one under the structure are two
  attribute lists with one hierarchical attribute each: the constructor accepts the
  configuration.
\<close>

lemma DictionaryStructure_hierarchical_in_two_lists:
  "\<not> isl (DictionaryStructure example_dictionary_env
      (Node [] [(''key'', Node [] [(''attribute'',
                   Node [] [leaf ''name'' ''k'', leaf ''type'' ''UInt64'', leaf ''hierarchical'' ''true''])]),
                example_attribute ''attribute'' ''a'' ''UInt64'' True]))"
  by (simp add: DictionaryStructure_def read_id_or_key_def getAttributes_def read_attribute_def
      read_null_value_def read_flags_def getAttributeUnderlyingType_def type_dictionary_def
      valid_keys_def config_access_defs example_config_defs)

subsection \<open>Dereferencing the key\<close>

lemma compare_key_types_defined: "compare_key_types k kts \<noteq> Undefined_dereference"
  by (induction k kts rule: compare_key_types.induct) simp_all

lemma accumulate_sizes_defined: "accumulate_sizes k n \<noteq> Undefined_dereference"
  by (induction k arbitrary: n) (simp_all split: option.split)

text \<open>
  Claim C10. \<open>validateKeyTypes\<close> and \<open>getKeySize\<close> dereference \<open>key\<close> without a test. On
  a schema that holds a key neither runs into the undefined dereference (they return or
  throw); on a schema without a key both do. A schema that the constructor has built is
  without a key exactly when its configuration gave \<open>id\<close>.
\<close>

theorem key_dereference:
  "(key ds \<noteq> None \<longrightarrow>
      validateKeyTypes ds key_types \<noteq> Undefined_dereference \<and> getKeySize ds \<noteq> Undefined_dereference)
   \<and> (key ds = None \<longrightarrow>
      validateKeyTypes ds key_types = Undefined_dereference \<and> getKeySize ds = Undefined_dereference)
   \<and> (DictionaryStructure env c = Inr ds \<longrightarrow> (key ds = None) = has c [''id''])"
proof (intro conjI impI)
  assume "key ds \<noteq> None"
  then obtain k where k: "key ds = Some k" by auto
  then have "getKeyDescription ds \<noteq> Undefined_dereference"
    by (simp add: getKeyDescription_def)
  with k show "validateKeyTypes ds key_types \<noteq> Undefined_dereference"
    by (cases "getKeyDescription ds") (simp_all add: validateKeyTypes_def compare_key_types_defined)
  from k show "getKeySize ds \<noteq> Undefined_dereference"
    by (simp add: getKeySize_def accumulate_sizes_defined)
next
  assume "key ds = None"
  then show "validateKeyTypes ds key_types = Undefined_dereference"
    by (simp add: validateKeyTypes_def)
next
  assume "key ds = None"
  then show "getKeySize ds = Undefined_dereference"
    by (simp add: getKeySize_def)
next
  assume "DictionaryStructure env c = Inr ds"
  then show "(key ds = None) = has c [''id'']"
    by (rule DictionaryStructure_Inr(6))
qed

definition example_id_structure :: dictionary_structure where
  "example_id_structure =
     \<lparr>id_attribute = Some \<lparr>special_name = ''id'', special_expression = []\<rparr>,
      key = None,
      attributes = [\<lparr>attr_name = ''a'', attr_underlying_type = UInt64,
                     attr_type = \<lparr>type_name = ''UInt64'', isValueRepresentedByInteger = True,
                                  getSizeOfValueInMemory = Some 8\<rparr>,
                     attr_expression = [], attr_null_value = Some ''0'', attr_hierarchical = False,
                     attr_injective = False, attr_is_object_id = False\<rparr>],
      range_min = None, range_max = None, has_expressions = False\<rparr>"

definition example_key_structure :: dictionary_structure where
  "example_key_structure =
     example_id_structure
       \<lparr>id_attribute := None,
        key := Some [\<lparr>attr_name = ''k'', attr_underlying_type = UInt64,
                      attr_type = \<lparr>type_name = ''UInt64'', isValueRepresentedByInteger = True,
                                   getSizeOfValueInMemory = Some 8\<rparr>,
                      attr_expression = [], attr_null_value = None, attr_hierarchical = False,
                      attr_injective = False, attr_is_object_id = False\<rparr>]\<rparr>"

text \<open>
  The schema that the constructor builds from an \<open>id\<close> configuration, and a schema with
  a key of one \<open>UInt64\<close> attribute, whose key size is 8.
\<close>

theorem key_dereference_witness:
  "DictionaryStructure example_dictionary_env
      (Node [] [(''id'', Node [] [leaf ''name'' ''id'']),
                example_attribute ''attribute'' ''a'' ''UInt64'' False]) = Inr example_id_structure
   \<and> validateKeyTypes example_id_structure [] = Undefined_dereference
   \<and> getKeySize example_id_structure = Undefined_dereference
   \<and> validateKeyTypes example_key_structure [] \<noteq> Undefined_dereference
   \<and> getKeySize example_key_structure = Returns 8"
proof -
  let ?c = "Node [] [(''id'', Node [] [leaf ''name'' ''id'']),
                example_attribute ''attribute'' ''a'' ''UInt64'' False]"
  have built: "DictionaryStructure example_dictionary_env ?c = Inr example_id_structure"
    by (simp add: DictionaryStructure_def read_id_or_key_def read_ranges_def read_optional_typed_def
        DictionarySpecialAttribute_def getAttributes_def read_attribute_def
        read_null_value_def read_flags_def getAttributeUnderlyingType_def type_dictionary_def
        valid_keys_def config_access_defs example_config_defs example_id_structure_def)
  have hid: "has ?c [''id'']"
    by (simp add: config_access_defs example_config_defs)
  from key_dereference [of example_id_structure "[]" example_dictionary_env ?c] built hid
  have a: "validateKeyTypes example_id_structure [] = Undefined_dereference
      \<and> getKeySize example_id_structure = Undefined_dereference"
    by simp
  have kk: "key example_key_structure \<noteq> None"
    by (simp add: example_key_structure_def)
  from key_dereference [of example_key_structure "[]" example_dictionary_env ?c] kk
  have b: "validateKeyTypes example_key_structure [] \<noteq> Undefined_dereference"
    by simp
  have c: "getKeySize example_key_structure = Returns 8"
    by (simp add: getKeySize_def example_key_structure_def example_id_structure_def)
  from built a b c show ?thesis by simp
qed

end
